theory Spec2Isabelle
  imports Main "HOL-Library.Word"
begin

section \<open>Error codes\<close>

text \<open>
  The functions of Knot DNS return an \<open>int\<close> that is one of the enumerators of
  \<open>libknot/errcode.h\<close>; the functions of libdnssec return one of \<open>libdnssec/error.h\<close>.
  Neither header is part of the examined sources, so only the enumerators that the
  examined code names are constructors here, and every other value a helper may return
  is \<open>KNOT_ERROR_OTHER n\<close> (respectively \<open>DNSSEC_ERROR_OTHER n\<close>).
\<close>

datatype knot_error =
    KNOT_EOK
  | KNOT_EINVAL
  | KNOT_ENOMEM
  | KNOT_ENOENT
  | KNOT_EACCES
  | KNOT_ESPACE
  | KNOT_EFEWDATA
  | KNOT_ERANGE
  | KNOT_EMALF
  | KNOT_ESOON_EXPIRE
  | KNOT_ERROR_OTHER nat

datatype dnssec_error =
    DNSSEC_EOK
  | DNSSEC_EINVAL
  | DNSSEC_INVALID_KEY_ALGORITHM
  | DNSSEC_ERROR_OTHER nat

section \<open>Key algorithms: size limits and reproducible signatures\<close>

text \<open>
  \<open>dnssec_key_algorithm_t\<close> is an enum of \<open>libdnssec/key.h\<close>. The eight enumerators
  that the switch statements name are constructors; \<open>DNSSEC_KEY_ALGORITHM_OTHER n\<close>
  stands for every other value of the enum's range (the \<open>default:\<close> branches).
\<close>

datatype dnssec_key_algorithm_t =
    DNSSEC_KEY_ALGORITHM_RSA_SHA1
  | DNSSEC_KEY_ALGORITHM_RSA_SHA1_NSEC3
  | DNSSEC_KEY_ALGORITHM_RSA_SHA256
  | DNSSEC_KEY_ALGORITHM_RSA_SHA512
  | DNSSEC_KEY_ALGORITHM_ECDSA_P256_SHA256
  | DNSSEC_KEY_ALGORITHM_ECDSA_P384_SHA384
  | DNSSEC_KEY_ALGORITHM_ED25519
  | DNSSEC_KEY_ALGORITHM_ED448
  | DNSSEC_KEY_ALGORITHM_OTHER nat

text \<open>
  \<open>struct limits\<close>: \<open>unsigned min, max, def\<close> and an optional validation callback
  (a null function pointer is \<open>None\<close>).
\<close>

record limits =
  lim_min :: "32 word"
  lim_max :: "32 word"
  lim_def :: "32 word"
  lim_validate :: "(32 word \<Rightarrow> bool) option"

definition RSA :: limits where
  "RSA = \<lparr>lim_min = 1024, lim_max = 4096, lim_def = 2048, lim_validate = None\<rparr>"

definition EC256 :: limits where
  "EC256 = \<lparr>lim_min = 256, lim_max = 256, lim_def = 256, lim_validate = None\<rparr>"

definition EC384 :: limits where
  "EC384 = \<lparr>lim_min = 384, lim_max = 384, lim_def = 384, lim_validate = None\<rparr>"

definition ED25519 :: limits where
  "ED25519 = \<lparr>lim_min = 256, lim_max = 256, lim_def = 256, lim_validate = None\<rparr>"

definition ED448 :: limits where
  "ED448 = \<lparr>lim_min = 456, lim_max = 456, lim_def = 456, lim_validate = None\<rparr>"

text \<open>\<open>get_limits\<close>: a pointer to the static table entry, or \<open>NULL\<close>.\<close>

fun get_limits :: "dnssec_key_algorithm_t \<Rightarrow> limits option" where
  "get_limits DNSSEC_KEY_ALGORITHM_RSA_SHA1 = Some RSA"
| "get_limits DNSSEC_KEY_ALGORITHM_RSA_SHA1_NSEC3 = Some RSA"
| "get_limits DNSSEC_KEY_ALGORITHM_RSA_SHA256 = Some RSA"
| "get_limits DNSSEC_KEY_ALGORITHM_RSA_SHA512 = Some RSA"
| "get_limits DNSSEC_KEY_ALGORITHM_ECDSA_P256_SHA256 = Some EC256"
| "get_limits DNSSEC_KEY_ALGORITHM_ECDSA_P384_SHA384 = Some EC384"
| "get_limits DNSSEC_KEY_ALGORITHM_ED25519 = Some ED25519"
| "get_limits DNSSEC_KEY_ALGORITHM_ED448 = Some ED448"
| "get_limits (DNSSEC_KEY_ALGORITHM_OTHER n) = None"

text \<open>\<open>dnssec_algorithm_reproducible(algorithm, enabled)\<close>.\<close>

fun dnssec_algorithm_reproducible :: "dnssec_key_algorithm_t \<Rightarrow> bool \<Rightarrow> bool" where
  "dnssec_algorithm_reproducible DNSSEC_KEY_ALGORITHM_ED25519 enabled = True"
| "dnssec_algorithm_reproducible DNSSEC_KEY_ALGORITHM_ED448 enabled = True"
| "dnssec_algorithm_reproducible DNSSEC_KEY_ALGORITHM_ECDSA_P256_SHA256 enabled = enabled"
| "dnssec_algorithm_reproducible DNSSEC_KEY_ALGORITHM_ECDSA_P384_SHA384 enabled = enabled"
| "dnssec_algorithm_reproducible _ enabled = False"

text \<open>
  \<open>dnssec_algorithm_key_size_range(algorithm, min_ptr, max_ptr)\<close>. Each output pointer
  is modelled by a flag (the pointer is not null) and an optional result (the value
  stored through it, \<open>None\<close> when nothing is stored).
\<close>

definition dnssec_algorithm_key_size_range ::
  "dnssec_key_algorithm_t \<Rightarrow> bool \<Rightarrow> bool \<Rightarrow> dnssec_error \<times> 32 word option \<times> 32 word option"
where
  "dnssec_algorithm_key_size_range algorithm min_ptr max_ptr =
     (if \<not> min_ptr \<and> \<not> max_ptr then (DNSSEC_EINVAL, None, None)
      else case get_limits algorithm of
        None \<Rightarrow> (DNSSEC_INVALID_KEY_ALGORITHM, None, None)
      | Some l \<Rightarrow>
          (DNSSEC_EOK,
           (if min_ptr then Some (lim_min l) else None),
           (if max_ptr then Some (lim_max l) else None)))"

text \<open>\<open>dnssec_algorithm_key_size_check(algorithm, bits)\<close>.\<close>

definition dnssec_algorithm_key_size_check :: "dnssec_key_algorithm_t \<Rightarrow> 32 word \<Rightarrow> bool" where
  "dnssec_algorithm_key_size_check algorithm bits =
     (case get_limits algorithm of
        None \<Rightarrow> False
      | Some l \<Rightarrow>
          if bits < lim_min l \<or> bits > lim_max l then False
          else (case lim_validate l of
                  Some validate \<Rightarrow> if \<not> validate bits then False else True
                | None \<Rightarrow> True))"

text \<open>\<open>dnssec_algorithm_key_size_default(algorithm)\<close>, an \<open>int\<close>.\<close>

definition dnssec_algorithm_key_size_default :: "dnssec_key_algorithm_t \<Rightarrow> int" where
  "dnssec_algorithm_key_size_default algorithm =
     (case get_limits algorithm of Some l \<Rightarrow> sint (lim_def l) | None \<Rightarrow> 0)"

section \<open>Resource record sets\<close>

text \<open>
  An RDATA is its bytes; an RDATA set (\<open>knot_rdataset_t\<close>) is the list of its RDATA in
  storage order, its \<open>count\<close> being the length of the list. \<open>knot_rrset_t\<close> carries
  owner, type, class, TTL and the RDATA set; \<open>struct rr_data\<close>, a node's stored form
  of an RRset, has the same type, TTL and RDATA set and takes the owner from its node
  (\<open>node_rrset_at\<close>), so one record serves both.
\<close>

type_synonym knot_rdata_t = "8 word list"

record knot_rrset_t =
  owner :: "8 word list"
  rtype :: "16 word"
  rclass :: "16 word"
  ttl :: "32 word"
  rrs :: "knot_rdata_t list"

text \<open>
  Modelled from the spec: the specification names the four RR types of a key record set;
  their numbers are defined in \<open>libknot/descriptor.h\<close>, which is not among the examined
  sources, and are the IANA assignments.
\<close>

definition KNOT_RRTYPE_RRSIG :: "16 word" where "KNOT_RRTYPE_RRSIG = 46"
definition KNOT_RRTYPE_DNSKEY :: "16 word" where "KNOT_RRTYPE_DNSKEY = 48"
definition KNOT_RRTYPE_CDS :: "16 word" where "KNOT_RRTYPE_CDS = 59"
definition KNOT_RRTYPE_CDNSKEY :: "16 word" where "KNOT_RRTYPE_CDNSKEY = 60"

text \<open>
  Modelled from the spec: \<open>knot_rrset_empty\<close> of libknot is not among the examined
  sources; a family is empty when it holds no RDATA.
\<close>

definition knot_rrset_empty :: "knot_rrset_t \<Rightarrow> bool" where
  "knot_rrset_empty rr = (rrs rr = [])"

section \<open>Zone measurement\<close>

datatype measure_size_t = MEASURE_SIZE_NONE | MEASURE_SIZE_WHOLE | MEASURE_SIZE_DIFF

datatype measure_ttl_t =
  MEASURE_TTL_NONE | MEASURE_TTL_WHOLE | MEASURE_TTL_DIFF | MEASURE_TTL_LIMIT

record measure_t =
  how_size :: measure_size_t
  how_ttl :: measure_ttl_t
  zone_size :: "64 word"
  max_ttl :: "32 word"
  rem_max_ttl :: "32 word"
  limit_max_ttl :: "32 word"

text \<open>
  A node of the zone tree: its RRsets (\<open>rrs[0 .. rrset_count - 1]\<close>) and those of the
  other half of its bi-node (\<open>binode_counterpart(node)\<close>).
\<close>

record zone_node_t =
  node_rrs :: "knot_rrset_t list"
  counterpart_rrs :: "knot_rrset_t list"

record zone_contents_t =
  nodes :: "zone_node_t list"
  nsec3_nodes :: "zone_node_t list"
  contents_size :: "64 word"
  contents_max_ttl :: "32 word"

text \<open>\<open>zone_update_t\<close>: the new contents and the contents of the zone being updated.\<close>

record zone_update_t =
  new_cont :: zone_contents_t
  zone_contents :: zone_contents_t

text \<open>\<open>measure_t m = { 0 }\<close>.\<close>

definition measure_zero :: measure_t where
  "measure_zero = \<lparr>how_size = MEASURE_SIZE_NONE, how_ttl = MEASURE_TTL_NONE, zone_size = 0,
     max_ttl = 0, rem_max_ttl = 0, limit_max_ttl = 0\<rparr>"

text \<open>
  \<open>knot_measure_init(measure_whole, measure_diff)\<close>; the assertion excludes both flags
  at once, which is \<open>None\<close> here.
\<close>

definition knot_measure_init :: "bool \<Rightarrow> bool \<Rightarrow> measure_t option" where
  "knot_measure_init measure_whole measure_diff =
     (if measure_whole \<and> measure_diff then None
      else
        let m = measure_zero;
            m = (if measure_whole
                 then m\<lparr>how_size := MEASURE_SIZE_WHOLE, how_ttl := MEASURE_TTL_WHOLE\<rparr> else m);
            m = (if measure_diff
                 then m\<lparr>how_size := MEASURE_SIZE_DIFF, how_ttl := MEASURE_TTL_DIFF\<rparr> else m)
        in Some m)"

text \<open>
  \<open>rrset_max_ttl\<close>. The accessor \<open>knot_rrsig_original_ttl\<close> of libknot is a parameter.
\<close>

primrec rrsig_ttl_loop :: "(knot_rdata_t \<Rightarrow> 32 word) \<Rightarrow> knot_rdata_t list \<Rightarrow> 32 word \<Rightarrow> 32 word" where
  "rrsig_ttl_loop knot_rrsig_original_ttl [] res = res"
| "rrsig_ttl_loop knot_rrsig_original_ttl (rd # rds) res =
     rrsig_ttl_loop knot_rrsig_original_ttl rds (max res (knot_rrsig_original_ttl rd))"

definition rrset_max_ttl :: "(knot_rdata_t \<Rightarrow> 32 word) \<Rightarrow> knot_rrset_t \<Rightarrow> 32 word" where
  "rrset_max_ttl knot_rrsig_original_ttl r =
     (if rtype r \<noteq> KNOT_RRTYPE_RRSIG then ttl r
      else rrsig_ttl_loop knot_rrsig_original_ttl (rrs r) 0)"

text \<open>
  The two loops of \<open>knot_measure_node\<close>: over the node's RRsets, then over those of
  its counterpart. \<open>knot_rrset_size\<close> of libknot is a parameter.
\<close>

primrec measure_node_loop ::
  "(knot_rrset_t \<Rightarrow> 64 word) \<Rightarrow> (knot_rdata_t \<Rightarrow> 32 word) \<Rightarrow> knot_rrset_t list \<Rightarrow> measure_t \<Rightarrow> measure_t"
where
  "measure_node_loop knot_rrset_size knot_rrsig_original_ttl [] m = m"
| "measure_node_loop knot_rrset_size knot_rrsig_original_ttl (rr # rest) m =
     (let m1 = (if how_size m \<noteq> MEASURE_SIZE_NONE
                then m\<lparr>zone_size := zone_size m + knot_rrset_size rr\<rparr> else m);
          m2 = (if how_ttl m1 \<noteq> MEASURE_TTL_NONE
                then m1\<lparr>max_ttl := max (max_ttl m1) (rrset_max_ttl knot_rrsig_original_ttl rr)\<rparr>
                else m1)
      in measure_node_loop knot_rrset_size knot_rrsig_original_ttl rest m2)"

primrec measure_counterpart_loop ::
  "(knot_rrset_t \<Rightarrow> 64 word) \<Rightarrow> (knot_rdata_t \<Rightarrow> 32 word) \<Rightarrow> knot_rrset_t list \<Rightarrow> measure_t \<Rightarrow> measure_t"
where
  "measure_counterpart_loop knot_rrset_size knot_rrsig_original_ttl [] m = m"
| "measure_counterpart_loop knot_rrset_size knot_rrsig_original_ttl (rr # rest) m =
     (let m1 = (if how_size m = MEASURE_SIZE_DIFF
                then m\<lparr>zone_size := zone_size m - knot_rrset_size rr\<rparr> else m);
          m2 = (if how_ttl m1 = MEASURE_TTL_DIFF
                then m1\<lparr>rem_max_ttl :=
                        max (rem_max_ttl m1) (rrset_max_ttl knot_rrsig_original_ttl rr)\<rparr>
                else m1)
      in measure_counterpart_loop knot_rrset_size knot_rrsig_original_ttl rest m2)"

text \<open>\<open>knot_measure_node(node, m)\<close>: the returned flag and the accumulator afterwards.\<close>

definition knot_measure_node ::
  "(knot_rrset_t \<Rightarrow> 64 word) \<Rightarrow> (knot_rdata_t \<Rightarrow> 32 word) \<Rightarrow> zone_node_t \<Rightarrow> measure_t
     \<Rightarrow> bool \<times> measure_t"
where
  "knot_measure_node knot_rrset_size knot_rrsig_original_ttl node m =
     (if how_size m = MEASURE_SIZE_NONE \<and>
         (how_ttl m = MEASURE_TTL_NONE \<or>
          (how_ttl m = MEASURE_TTL_LIMIT \<and> max_ttl m \<ge> limit_max_ttl m))
      then (False, m)
      else
        let m1 = measure_node_loop knot_rrset_size knot_rrsig_original_ttl (node_rrs node) m
        in if how_size m1 \<noteq> MEASURE_SIZE_DIFF \<and> how_ttl m1 \<noteq> MEASURE_TTL_DIFF
           then (True, m1)
           else (True, measure_counterpart_loop knot_rrset_size knot_rrsig_original_ttl
                         (counterpart_rrs node) m1))"

text \<open>
  \<open>re_measure_max_ttl(zone, limit)\<close>. \<open>zone_tree_it_double_begin\<close> is a parameter: from
  the two trees it gives its return code and the nodes the iterator then visits, in
  order. The \<open>while\<close> loop stops at the end of the nodes or when \<open>knot_measure_node\<close>
  returns false.
\<close>

primrec re_measure_loop ::
  "(knot_rrset_t \<Rightarrow> 64 word) \<Rightarrow> (knot_rdata_t \<Rightarrow> 32 word) \<Rightarrow> zone_node_t list \<Rightarrow> measure_t \<Rightarrow> measure_t"
where
  "re_measure_loop knot_rrset_size knot_rrsig_original_ttl [] m = m"
| "re_measure_loop knot_rrset_size knot_rrsig_original_ttl (node # rest) m =
     (case knot_measure_node knot_rrset_size knot_rrsig_original_ttl node m of
        (True, m') \<Rightarrow> re_measure_loop knot_rrset_size knot_rrsig_original_ttl rest m'
      | (False, m') \<Rightarrow> m')"

definition re_measure_max_ttl ::
  "(zone_node_t list \<Rightarrow> zone_node_t list \<Rightarrow> knot_error \<times> zone_node_t list) \<Rightarrow>
   (knot_rrset_t \<Rightarrow> 64 word) \<Rightarrow> (knot_rdata_t \<Rightarrow> 32 word) \<Rightarrow> zone_contents_t \<Rightarrow> 32 word \<Rightarrow> 32 word"
where
  "re_measure_max_ttl zone_tree_it_double_begin knot_rrset_size knot_rrsig_original_ttl zone limit =
     (let m = measure_zero\<lparr>how_ttl := MEASURE_TTL_LIMIT, limit_max_ttl := limit\<rparr>;
          (ret, it) = zone_tree_it_double_begin (nodes zone) (nsec3_nodes zone)
      in if ret \<noteq> KNOT_EOK then limit
         else max_ttl (re_measure_loop knot_rrset_size knot_rrsig_original_ttl it m))"

text \<open>\<open>knot_measure_finish_update(m, update)\<close>: the update afterwards.\<close>

definition knot_measure_finish_update ::
  "(zone_node_t list \<Rightarrow> zone_node_t list \<Rightarrow> knot_error \<times> zone_node_t list) \<Rightarrow>
   (knot_rrset_t \<Rightarrow> 64 word) \<Rightarrow> (knot_rdata_t \<Rightarrow> 32 word) \<Rightarrow> measure_t \<Rightarrow> zone_update_t \<Rightarrow> zone_update_t"
where
  "knot_measure_finish_update zone_tree_it_double_begin knot_rrset_size knot_rrsig_original_ttl m update =
     (let u1 =
        (case how_size m of
           MEASURE_SIZE_NONE \<Rightarrow> update
         | MEASURE_SIZE_WHOLE \<Rightarrow>
             update\<lparr>new_cont := (new_cont update)\<lparr>contents_size := zone_size m\<rparr>\<rparr>
         | MEASURE_SIZE_DIFF \<Rightarrow>
             update\<lparr>new_cont := (new_cont update)
               \<lparr>contents_size := contents_size (zone_contents update) + zone_size m\<rparr>\<rparr>)
      in case how_ttl m of
           MEASURE_TTL_NONE \<Rightarrow> u1
         | MEASURE_TTL_WHOLE \<Rightarrow>
             u1\<lparr>new_cont := (new_cont u1)\<lparr>contents_max_ttl := max_ttl m\<rparr>\<rparr>
         | MEASURE_TTL_LIMIT \<Rightarrow>
             u1\<lparr>new_cont := (new_cont u1)\<lparr>contents_max_ttl := max_ttl m\<rparr>\<rparr>
         | MEASURE_TTL_DIFF \<Rightarrow>
             if max_ttl m \<ge> contents_max_ttl (zone_contents u1) then
               u1\<lparr>new_cont := (new_cont u1)\<lparr>contents_max_ttl := max_ttl m\<rparr>\<rparr>
             else if contents_max_ttl (zone_contents u1) > rem_max_ttl m then
               u1\<lparr>new_cont := (new_cont u1)
                 \<lparr>contents_max_ttl := contents_max_ttl (zone_contents u1)\<rparr>\<rparr>
             else
               u1\<lparr>new_cont := (new_cont u1)
                 \<lparr>contents_max_ttl :=
                    re_measure_max_ttl zone_tree_it_double_begin knot_rrset_size
                      knot_rrsig_original_ttl (new_cont u1) (contents_max_ttl (zone_contents u1))\<rparr>\<rparr>)"

section \<open>Key record sets\<close>

text \<open>\<open>key_records_t\<close>: the four RRsets of the zone apex that travel together.\<close>

record key_records_t =
  dnskey :: knot_rrset_t
  cdnskey :: knot_rrset_t
  cds :: knot_rrset_t
  rrsig :: knot_rrset_t






text \<open>
  \<open>add_one\<close> and \<open>key_records_to_changeset\<close>. The changeset and its flags are opaque
  (\<open>'ch\<close>, \<open>'fl\<close>); \<open>changeset_add_removal\<close> and \<open>changeset_add_addition\<close> are
  parameters giving their return code and the changeset afterwards.
\<close>

definition add_one ::
  "('ch \<Rightarrow> knot_rrset_t \<Rightarrow> 'fl \<Rightarrow> knot_error \<times> 'ch) \<Rightarrow> ('ch \<Rightarrow> knot_rrset_t \<Rightarrow> 'fl \<Rightarrow> knot_error \<times> 'ch) \<Rightarrow>
   knot_rrset_t \<Rightarrow> 'ch \<Rightarrow> bool \<Rightarrow> 'fl \<Rightarrow> knot_error \<Rightarrow> knot_error \<times> 'ch"
where
  "add_one changeset_add_removal changeset_add_addition rr ch rem fl ret =
     (if ret = KNOT_EOK \<and> \<not> knot_rrset_empty rr then
        (if rem then changeset_add_removal ch rr fl
         else changeset_add_addition ch rr fl)
      else (ret, ch))"

definition key_records_to_changeset ::
  "('ch \<Rightarrow> knot_rrset_t \<Rightarrow> 'fl \<Rightarrow> knot_error \<times> 'ch) \<Rightarrow> ('ch \<Rightarrow> knot_rrset_t \<Rightarrow> 'fl \<Rightarrow> knot_error \<times> 'ch) \<Rightarrow>
   key_records_t \<Rightarrow> 'ch \<Rightarrow> bool \<Rightarrow> 'fl \<Rightarrow> knot_error \<times> 'ch"
where
  "key_records_to_changeset changeset_add_removal changeset_add_addition r ch rem chfl =
     (let ret = KNOT_EOK;
          (ret, ch) = add_one changeset_add_removal changeset_add_addition (dnskey r) ch rem chfl ret;
          (ret, ch) = add_one changeset_add_removal changeset_add_addition (cdnskey r) ch rem chfl ret;
          (ret, ch) = add_one changeset_add_removal changeset_add_addition (cds r) ch rem chfl ret
      in (ret, ch))"

text \<open>
  What the specification says of \<open>to_changeset\<close>, as a function of its own: the given
  RRsets are appended one after the other with the chosen operation, and the first
  return code other than \<open>KNOT_EOK\<close> ends the run and is the result.
\<close>

primrec append_until_error ::
  "('ch \<Rightarrow> knot_rrset_t \<Rightarrow> 'fl \<Rightarrow> knot_error \<times> 'ch) \<Rightarrow> 'fl \<Rightarrow> knot_rrset_t list \<Rightarrow> 'ch \<Rightarrow> knot_error \<times> 'ch"
where
  "append_until_error changeset_add fl [] ch = (KNOT_EOK, ch)"
| "append_until_error changeset_add fl (rr # rest) ch =
     (case changeset_add ch rr fl of
        (ret, ch') \<Rightarrow>
          if ret = KNOT_EOK then append_until_error changeset_add fl rest ch' else (ret, ch'))"

section \<open>Signing the key records\<close>

text \<open>
  \<open>zone_key_t\<close> is used through its member \<open>key\<close> and as a whole (by
  \<open>knot_zone_sign_use_key\<close>); its other members are the record's extension.
  The signing context of libdnssec (\<open>'sc\<close>) and the DNSSEC context (\<open>'kc\<close>) are opaque.
  Parameters, in this order:
  \<^item> \<open>dnssec_sign_new\<close>: its return code and the context stored through the pointer
    (\<open>None\<close> when nothing is stored);
  \<^item> \<open>knot_error_from_libdnssec\<close>;
  \<^item> \<open>knot_zone_sign_use_key\<close>;
  \<^item> \<open>knot_sign_rrset\<close>: from the RRSIG set, the covered RRset, the key, the signing
    context and the DNSSEC context, its return code and the RRSIG set afterwards.
\<close>

record 'dk zone_key_t =
  key :: 'dk

definition key_records_sign ::
  "('dk \<Rightarrow> dnssec_error \<times> 'sc option) \<Rightarrow> (dnssec_error \<Rightarrow> knot_error) \<Rightarrow>
   (('dk, 'z) zone_key_t_scheme \<Rightarrow> knot_rrset_t \<Rightarrow> bool) \<Rightarrow>
   (knot_rrset_t \<Rightarrow> knot_rrset_t \<Rightarrow> 'dk \<Rightarrow> 'sc option \<Rightarrow> 'kc \<Rightarrow> knot_error \<times> knot_rrset_t) \<Rightarrow>
   ('dk, 'z) zone_key_t_scheme \<Rightarrow> key_records_t \<Rightarrow> 'kc \<Rightarrow> knot_error \<times> key_records_t"
where
  "key_records_sign dnssec_sign_new knot_error_from_libdnssec knot_zone_sign_use_key knot_sign_rrset
       zkey r kctx =
     (let (dret, sign_ctx) = dnssec_sign_new (key zkey);
          ret = (if dret \<noteq> DNSSEC_EOK then knot_error_from_libdnssec dret else KNOT_EOK);
          (ret, sigs) =
            (if \<not> knot_rrset_empty (dnskey r) \<and> knot_zone_sign_use_key zkey (dnskey r)
             then knot_sign_rrset (rrsig r) (dnskey r) (key zkey) sign_ctx kctx
             else (ret, rrsig r));
          (ret, sigs) =
            (if ret = KNOT_EOK \<and> \<not> knot_rrset_empty (cdnskey r) \<and>
                knot_zone_sign_use_key zkey (cdnskey r)
             then knot_sign_rrset sigs (cdnskey r) (key zkey) sign_ctx kctx
             else (ret, sigs));
          (ret, sigs) =
            (if ret = KNOT_EOK \<and> \<not> knot_rrset_empty (cds r) \<and>
                knot_zone_sign_use_key zkey (cds r)
             then knot_sign_rrset sigs (cds r) (key zkey) sign_ctx kctx
             else (ret, sigs))
      in (ret, r\<lparr>rrsig := sigs\<rparr>))"

text \<open>
  What the specification says of \<open>sign\<close>, as a function of its own: the given RRsets are
  signed one after the other into the RRSIG set, and the first return code other than
  \<open>KNOT_EOK\<close> ends the run and is the result.
\<close>

primrec sign_until_error ::
  "(knot_rrset_t \<Rightarrow> knot_rrset_t \<Rightarrow> 'dk \<Rightarrow> 'sc option \<Rightarrow> 'kc \<Rightarrow> knot_error \<times> knot_rrset_t) \<Rightarrow>
   'dk \<Rightarrow> 'sc option \<Rightarrow> 'kc \<Rightarrow> knot_rrset_t list \<Rightarrow> knot_rrset_t \<Rightarrow> knot_error \<times> knot_rrset_t"
where
  "sign_until_error knot_sign_rrset k sign_ctx kctx [] sigs = (KNOT_EOK, sigs)"
| "sign_until_error knot_sign_rrset k sign_ctx kctx (rr # rest) sigs =
     (case knot_sign_rrset sigs rr k sign_ctx kctx of
        (ret, sigs') \<Rightarrow>
          if ret = KNOT_EOK then sign_until_error knot_sign_rrset k sign_ctx kctx rest sigs'
          else (ret, sigs'))"

section \<open>Verifying the key records\<close>

text \<open>
  \<open>knot_time_t\<close> is a 64-bit unsigned number of seconds. Of \<open>kdnssec_ctx_t\<close> the
  members that \<open>key_records_verify\<close> touches are modelled; the KASP zone (\<open>'z\<close>) is
  opaque. Parameters, in this order:
  \<^item> \<open>kasp_zone_keys_from_rr\<close>: from the KASP zone, the DNSKEY RDATA, the flag and the
    value behind the \<open>keytag_conflict\<close> pointer, its return code, the KASP zone and the
    flag afterwards;
  \<^item> \<open>zone_validation_ctx\<close>: the validation context (\<open>'vc\<close>) built from the DNSSEC
    context, \<open>None\<close> for a null pointer;
  \<^item> \<open>knot_validate_rrsigs\<close>: from the covered RRset, the RRSIGs, the validation
    context, \<open>skip_crypto\<close> and the value behind \<open>valid_until\<close>, its return code, the
    value behind \<open>valid_until\<close> and the validation context afterwards;
  \<^item> \<open>knot_time_lt\<close>.
\<close>

type_synonym knot_time_t = "64 word"

record 'z kdnssec_ctx_t =
  now :: knot_time_t
  zone :: 'z
  keytag_conflict :: bool

definition key_records_verify ::
  "('z \<Rightarrow> knot_rdata_t list \<Rightarrow> bool \<Rightarrow> bool \<Rightarrow> knot_error \<times> 'z \<times> bool) \<Rightarrow>
   ('z kdnssec_ctx_t \<Rightarrow> 'vc option) \<Rightarrow>
   (knot_rrset_t \<Rightarrow> knot_rrset_t \<Rightarrow> 'vc \<Rightarrow> bool \<Rightarrow> knot_time_t \<Rightarrow> knot_error \<times> knot_time_t \<times> 'vc) \<Rightarrow>
   (knot_time_t \<Rightarrow> knot_time_t \<Rightarrow> bool) \<Rightarrow>
   key_records_t \<Rightarrow> 'z kdnssec_ctx_t \<Rightarrow> knot_time_t \<Rightarrow> knot_time_t \<Rightarrow> knot_error \<times> 'z kdnssec_ctx_t"
where
  "key_records_verify kasp_zone_keys_from_rr zone_validation_ctx knot_validate_rrsigs knot_time_lt
       r kctx timestamp min_valid =
     (let kctx = kctx\<lparr>now := timestamp\<rparr>;
          (ret, z, conflict) =
             kasp_zone_keys_from_rr (zone kctx) (rrs (dnskey r)) False (keytag_conflict kctx);
          kctx = kctx\<lparr>zone := z, keytag_conflict := conflict\<rparr>
      in if ret \<noteq> KNOT_EOK then (ret, kctx)
         else case zone_validation_ctx kctx of
           None \<Rightarrow> (KNOT_ENOMEM, kctx)
         | Some sign_ctx \<Rightarrow>
             let until = 0;
                 (ret, until, sign_ctx) =
                    knot_validate_rrsigs (dnskey r) (rrsig r) sign_ctx False until;
                 (ret, until, sign_ctx) =
                    (if ret = KNOT_EOK \<and> \<not> knot_rrset_empty (cdnskey r)
                     then knot_validate_rrsigs (cdnskey r) (rrsig r) sign_ctx False until
                     else (ret, until, sign_ctx));
                 (ret, until, sign_ctx) =
                    (if ret = KNOT_EOK \<and> \<not> knot_rrset_empty (cds r)
                     then knot_validate_rrsigs (cds r) (rrsig r) sign_ctx False until
                     else (ret, until, sign_ctx));
                 ret = (if ret = KNOT_EOK \<and> knot_time_lt until min_valid
                        then KNOT_ESOON_EXPIRE else ret)
             in (ret, kctx))"

section \<open>Wire context\<close>

unbundle bit_operations_syntax

text \<open>
  \<open>wire_ctx_t\<close> of \<open>contrib/wire_ctx.h\<close>. The buffer is the list \<open>wire\<close>, whose length is
  \<open>wire_size\<close> for a context made by \<open>wire_ctx_init\<close>; the pointer \<open>position\<close> is kept as
  its offset from \<open>wire\<close>. \<open>wire_ctx_read\<close> gives the bytes stored through \<open>data\<close> and the
  context afterwards; the 16-bit accessors use network byte order.
\<close>

record wire_ctx_t =
  wire_size :: nat
  wire :: "8 word list"
  position :: nat
  error :: knot_error
  readonly :: bool

definition wire_ctx_init :: "8 word list \<Rightarrow> wire_ctx_t" where
  "wire_ctx_init data =
     \<lparr>wire_size = length data, wire = data, position = 0, error = KNOT_EOK, readonly = False\<rparr>"

definition wire_ctx_init_const :: "8 word list \<Rightarrow> wire_ctx_t" where
  "wire_ctx_init_const data = (wire_ctx_init data)\<lparr>readonly := True\<rparr>"

definition wire_ctx_offset :: "wire_ctx_t \<Rightarrow> nat" where
  "wire_ctx_offset ctx = position ctx"

definition wire_ctx_available :: "wire_ctx_t \<Rightarrow> nat" where
  "wire_ctx_available ctx = wire_size ctx - wire_ctx_offset ctx"

definition wire_ctx_can_read :: "wire_ctx_t \<Rightarrow> nat \<Rightarrow> knot_error" where
  "wire_ctx_can_read ctx n =
     (if error ctx \<noteq> KNOT_EOK then error ctx
      else if wire_ctx_available ctx < n then KNOT_EFEWDATA
      else KNOT_EOK)"

definition wire_ctx_can_write :: "wire_ctx_t \<Rightarrow> nat \<Rightarrow> knot_error" where
  "wire_ctx_can_write ctx n =
     (if error ctx \<noteq> KNOT_EOK then error ctx
      else if readonly ctx then KNOT_EACCES
      else if wire_ctx_available ctx < n then KNOT_ESPACE
      else KNOT_EOK)"

definition wire_ctx_read :: "wire_ctx_t \<Rightarrow> nat \<Rightarrow> 8 word list \<times> wire_ctx_t" where
  "wire_ctx_read ctx n =
     (if error ctx \<noteq> KNOT_EOK then (replicate n 0, ctx)
      else
        let ret = wire_ctx_can_read ctx n
        in if ret \<noteq> KNOT_EOK then (replicate n 0, ctx\<lparr>error := ret\<rparr>)
           else (take n (drop (position ctx) (wire ctx)), ctx\<lparr>position := position ctx + n\<rparr>))"

definition htobe16 :: "16 word \<Rightarrow> 8 word list" where
  "htobe16 v = [ucast (drop_bit 8 v), ucast v]"

definition be16toh :: "8 word list \<Rightarrow> 16 word" where
  "be16toh bs = (case bs of [hi, lo] \<Rightarrow> push_bit 8 (ucast hi) OR ucast lo | _ \<Rightarrow> 0)"

definition wire_ctx_read_u16 :: "wire_ctx_t \<Rightarrow> 16 word \<times> wire_ctx_t" where
  "wire_ctx_read_u16 ctx = (let (result, ctx) = wire_ctx_read ctx 2 in (be16toh result, ctx))"

definition wire_ctx_write :: "wire_ctx_t \<Rightarrow> 8 word list \<Rightarrow> wire_ctx_t" where
  "wire_ctx_write ctx data =
     (if error ctx \<noteq> KNOT_EOK then ctx
      else if length data = 0 then ctx
      else
        let ret = wire_ctx_can_write ctx (length data)
        in if ret \<noteq> KNOT_EOK then ctx\<lparr>error := ret\<rparr>
           else ctx\<lparr>wire := take (position ctx) (wire ctx) @ data @
                              drop (position ctx + length data) (wire ctx),
                     position := position ctx + length data\<rparr>)"

definition wire_ctx_write_u16 :: "wire_ctx_t \<Rightarrow> 16 word \<Rightarrow> wire_ctx_t" where
  "wire_ctx_write_u16 ctx v = wire_ctx_write ctx (htobe16 v)"

section \<open>Serialization of the key records\<close>

text \<open>
  \<open>key_records_serialized_size\<close>, \<open>key_records_serialize\<close> and
  \<open>key_records_deserialize\<close>. The routines for one RRset (\<open>rrset_serialized_size\<close>,
  \<open>serialize_rrset\<close>, \<open>deserialize_rrset\<close> of \<open>knot/journal/serialization.c\<close>) are
  parameters: \<open>serialize_rrset\<close> gives its return code and the context afterwards,
  \<open>deserialize_rrset\<close> its return code, the RRset and the context afterwards.
\<close>

definition key_records_serialized_size :: "(knot_rrset_t \<Rightarrow> nat) \<Rightarrow> key_records_t \<Rightarrow> nat" where
  "key_records_serialized_size rrset_serialized_size r =
     rrset_serialized_size (dnskey r) + rrset_serialized_size (cdnskey r) +
     rrset_serialized_size (cds r) + rrset_serialized_size (rrsig r)"

definition key_records_serialize ::
  "(wire_ctx_t \<Rightarrow> knot_rrset_t \<Rightarrow> knot_error \<times> wire_ctx_t) \<Rightarrow>
   wire_ctx_t \<Rightarrow> key_records_t \<Rightarrow> knot_error \<times> wire_ctx_t" where
  "key_records_serialize serialize_rrset w r =
     (let (ret, w) = serialize_rrset w (dnskey r);
          (ret, w) = (if ret = KNOT_EOK then serialize_rrset w (cdnskey r) else (ret, w));
          (ret, w) = (if ret = KNOT_EOK then serialize_rrset w (cds r) else (ret, w));
          (ret, w) = (if ret = KNOT_EOK then serialize_rrset w (rrsig r) else (ret, w))
      in (ret, w))"

definition key_records_deserialize ::
  "(wire_ctx_t \<Rightarrow> knot_rrset_t \<Rightarrow> knot_error \<times> knot_rrset_t \<times> wire_ctx_t) \<Rightarrow>
   wire_ctx_t \<Rightarrow> key_records_t \<Rightarrow> knot_error \<times> key_records_t \<times> wire_ctx_t" where
  "key_records_deserialize deserialize_rrset w r =
     (let (ret, rr, w) = deserialize_rrset w (dnskey r);
          r = r\<lparr>dnskey := rr\<rparr>;
          (ret, r, w) = (if ret = KNOT_EOK
                         then (let (ret, rr, w) = deserialize_rrset w (cdnskey r)
                               in (ret, r\<lparr>cdnskey := rr\<rparr>, w))
                         else (ret, r, w));
          (ret, r, w) = (if ret = KNOT_EOK
                         then (let (ret, rr, w) = deserialize_rrset w (cds r)
                               in (ret, r\<lparr>cds := rr\<rparr>, w))
                         else (ret, r, w));
          (ret, r, w) = (if ret = KNOT_EOK
                         then (let (ret, rr, w) = deserialize_rrset w (rrsig r)
                               in (ret, r\<lparr>rrsig := rr\<rparr>, w))
                         else (ret, r, w))
      in (ret, r, w))"

text \<open>
  Modelled from the spec: \<open>rrset_serialized_size\<close>, \<open>serialize_rrset\<close> and
  \<open>deserialize_rrset\<close> of \<open>knot/journal/serialization.c\<close> are not among the examined
  sources. The specification says that each family is length-prefixed and can be read
  back on its own, that reading preserves the order and that reading fails with a decode
  error on truncation. Accordingly an RRset is written as the 16-bit count of its RDATA
  followed by each RDATA as its 16-bit length and its bytes; reading gives the RDATA in
  the order written and returns \<open>KNOT_EMALF\<close> when the bytes end early.
\<close>

definition rrset_serialized_size :: "knot_rrset_t \<Rightarrow> nat" where
  "rrset_serialized_size rr = 2 + sum_list (map (\<lambda>rd. 2 + length rd) (rrs rr))"

primrec serialize_rdata_loop :: "wire_ctx_t \<Rightarrow> knot_rdata_t list \<Rightarrow> wire_ctx_t" where
  "serialize_rdata_loop w [] = w"
| "serialize_rdata_loop w (rd # rest) =
     serialize_rdata_loop (wire_ctx_write (wire_ctx_write_u16 w (of_nat (length rd))) rd) rest"

definition serialize_rrset :: "wire_ctx_t \<Rightarrow> knot_rrset_t \<Rightarrow> knot_error \<times> wire_ctx_t" where
  "serialize_rrset w rr =
     (let w = wire_ctx_write_u16 w (of_nat (length (rrs rr)));
          w = serialize_rdata_loop w (rrs rr)
      in (error w, w))"

primrec deserialize_rdata_loop ::
  "nat \<Rightarrow> wire_ctx_t \<Rightarrow> knot_rdata_t list \<Rightarrow> knot_error \<times> knot_rdata_t list \<times> wire_ctx_t" where
  "deserialize_rdata_loop 0 w acc = (KNOT_EOK, acc, w)"
| "deserialize_rdata_loop (Suc n) w acc =
     (let (rdlen, w) = wire_ctx_read_u16 w
      in if error w \<noteq> KNOT_EOK \<or> wire_ctx_available w < unat rdlen then (KNOT_EMALF, acc, w)
         else let (rd, w) = wire_ctx_read w (unat rdlen)
              in deserialize_rdata_loop n w (acc @ [rd]))"

definition deserialize_rrset ::
  "wire_ctx_t \<Rightarrow> knot_rrset_t \<Rightarrow> knot_error \<times> knot_rrset_t \<times> wire_ctx_t" where
  "deserialize_rrset w rr =
     (let (rrcount, w) = wire_ctx_read_u16 w
      in if error w \<noteq> KNOT_EOK then (KNOT_EMALF, rr, w)
         else case deserialize_rdata_loop (unat rrcount) w [] of
                (ret, rds, w) \<Rightarrow>
                  if ret = KNOT_EOK then (KNOT_EOK, rr\<lparr>rrs := rds\<rparr>, w) else (ret, rr, w))"

text \<open>
  The bytes of one RDATA and of one RRset in that encoding, as lists; and the RRsets the
  encoding can hold: the RDATA count and every RDATA length fit their 16-bit fields, as
  they do in \<open>knot_rdataset_t\<close> and \<open>knot_rdata_t\<close>.
\<close>

definition rdata_bytes :: "knot_rdata_t \<Rightarrow> 8 word list" where
  "rdata_bytes rd = htobe16 (of_nat (length rd)) @ rd"

definition rrset_bytes :: "knot_rrset_t \<Rightarrow> 8 word list" where
  "rrset_bytes rr = htobe16 (of_nat (length (rrs rr))) @ concat (map rdata_bytes (rrs rr))"

definition rrset_encodable :: "knot_rrset_t \<Rightarrow> bool" where
  "rrset_encodable rr = (length (rrs rr) < 65536 \<and> (\<forall>rd \<in> set (rrs rr). length rd < 65536))"

definition key_records_encodable :: "key_records_t \<Rightarrow> bool" where
  "key_records_encodable r =
     (rrset_encodable (dnskey r) \<and> rrset_encodable (cdnskey r) \<and>
      rrset_encodable (cds r) \<and> rrset_encodable (rrsig r))"

text \<open>
  \<open>written w bs\<close>: a writable context without error whose bytes before the position are
  \<open>bs\<close>. \<open>unread w bs\<close>: a context without error whose bytes from the position on are
  \<open>bs\<close>.
\<close>

definition written :: "wire_ctx_t \<Rightarrow> 8 word list \<Rightarrow> bool" where
  "written w bs = (error w = KNOT_EOK \<and> \<not> readonly w \<and> wire_size w = length (wire w) \<and>
      position w = length bs \<and> length bs \<le> length (wire w) \<and> take (length bs) (wire w) = bs)"

definition unread :: "wire_ctx_t \<Rightarrow> 8 word list \<Rightarrow> bool" where
  "unread w bs = (error w = KNOT_EOK \<and> wire_size w = length (wire w) \<and>
      drop (position w) (wire w) = bs)"

text \<open>
  Serializing a record set into a fresh context over \<open>buf\<close> and deserializing the
  bytes produced (those before the position) into \<open>r0\<close>, through a read-only context:
  the two return codes, the bytes and the record set read back.
\<close>

definition serialize_then_deserialize ::
  "key_records_t \<Rightarrow> 8 word list \<Rightarrow> key_records_t \<Rightarrow> knot_error \<times> 8 word list \<times> knot_error \<times> key_records_t"
where
  "serialize_then_deserialize r buf r0 =
     (let (ret, out) = key_records_serialize serialize_rrset (wire_ctx_init buf) r;
          bytes = take (wire_ctx_offset out) (wire out);
          (ret', r', w') = key_records_deserialize deserialize_rrset (wire_ctx_init_const bytes) r0
      in (ret, bytes, ret', r'))"

section \<open>Example inputs\<close>

text \<open>
  Concrete stand-ins for the helpers that are parameters above, and concrete inputs.
  They are used only to evaluate the functions at particular inputs.
\<close>

definition ex_zone_tree_it_double_begin ::
  "zone_node_t list \<Rightarrow> zone_node_t list \<Rightarrow> knot_error \<times> zone_node_t list" where
  "ex_zone_tree_it_double_begin ns ns3 = (KNOT_EOK, ns @ ns3)"

definition ex_knot_rrset_size :: "knot_rrset_t \<Rightarrow> 64 word" where
  "ex_knot_rrset_size rr = of_nat (length (concat (rrs rr)))"

definition ex_knot_rrsig_original_ttl :: "knot_rdata_t \<Rightarrow> 32 word" where
  "ex_knot_rrsig_original_ttl rd = (case drop 7 rd of [] \<Rightarrow> 0 | b # _ \<Rightarrow> ucast b)"

definition ex_rrset :: "16 word \<Rightarrow> 32 word \<Rightarrow> knot_rdata_t list \<Rightarrow> knot_rrset_t" where
  "ex_rrset t l rds = \<lparr>owner = [0], rtype = t, rclass = 1, ttl = l, rrs = rds\<rparr>"

definition ex_node :: zone_node_t where
  "ex_node = \<lparr>node_rrs = [ex_rrset 1 600 [[192, 0, 2, 1]]], counterpart_rrs = []\<rparr>"

definition ex_measure_diff :: measure_t where
  "ex_measure_diff = measure_zero\<lparr>how_ttl := MEASURE_TTL_DIFF, max_ttl := 300, rem_max_ttl := 3600\<rparr>"

definition ex_update :: zone_update_t where
  "ex_update =
     \<lparr>new_cont = \<lparr>nodes = [ex_node], nsec3_nodes = [], contents_size = 0, contents_max_ttl = 0\<rparr>,
      zone_contents = \<lparr>nodes = [], nsec3_nodes = [], contents_size = 0, contents_max_ttl = 3600\<rparr>\<rparr>"


definition ex_records_empty :: key_records_t where
  "ex_records_empty =
     \<lparr>dnskey = ex_rrset KNOT_RRTYPE_DNSKEY 3600 [], cdnskey = ex_rrset KNOT_RRTYPE_CDNSKEY 0 [],
      cds = ex_rrset KNOT_RRTYPE_CDS 0 [], rrsig = ex_rrset KNOT_RRTYPE_RRSIG 3600 []\<rparr>"

definition ex_records :: key_records_t where
  "ex_records =
     \<lparr>dnskey = ex_rrset KNOT_RRTYPE_DNSKEY 3600 [[1, 1, 3, 13, 7], [1, 0, 3, 13, 9]],
      cdnskey = ex_rrset KNOT_RRTYPE_CDNSKEY 0 [[1, 1, 3, 13, 7]],
      cds = ex_rrset KNOT_RRTYPE_CDS 0 [],
      rrsig = ex_rrset KNOT_RRTYPE_RRSIG 3600 [[0, 48, 13]]\<rparr>"

definition ex_kdnssec_ctx :: "unit kdnssec_ctx_t" where
  "ex_kdnssec_ctx = \<lparr>now = 1000, zone = (), keytag_conflict = False\<rparr>"

definition ex_kasp_zone_keys_from_rr ::
  "unit \<Rightarrow> knot_rdata_t list \<Rightarrow> bool \<Rightarrow> bool \<Rightarrow> knot_error \<times> unit \<times> bool" where
  "ex_kasp_zone_keys_from_rr z rds policy conflict = (KNOT_EOK, z, conflict)"

definition ex_zone_validation_ctx :: "unit kdnssec_ctx_t \<Rightarrow> unit option" where
  "ex_zone_validation_ctx kctx = Some ()"

text \<open>A builder of validation contexts that works only when \<open>now\<close> is \<open>t\<close>.\<close>

definition ex_zone_validation_ctx_at :: "knot_time_t \<Rightarrow> unit kdnssec_ctx_t \<Rightarrow> unit option" where
  "ex_zone_validation_ctx_at t kctx = (if now kctx = t then Some () else None)"

text \<open>A validator that accepts everything and sees one signature, expiring at 5000.\<close>

definition ex_knot_validate_rrsigs ::
  "knot_rrset_t \<Rightarrow> knot_rrset_t \<Rightarrow> unit \<Rightarrow> bool \<Rightarrow> knot_time_t \<Rightarrow> knot_error \<times> knot_time_t \<times> unit"
where
  "ex_knot_validate_rrsigs covered rrsigs vc skip_crypto until =
     (KNOT_EOK, (if until = 0 \<or> 5000 < until then 5000 else until), vc)"

text \<open>A comparison of timestamps in which zero stands for infinity.\<close>

definition ex_knot_time_lt :: "knot_time_t \<Rightarrow> knot_time_t \<Rightarrow> bool" where
  "ex_knot_time_lt a b = (a \<noteq> 0 \<and> (b = 0 \<or> a < b))"

section \<open>Theorems\<close>

subsection \<open>Helper lemmas\<close>

lemma re_measure_max_ttl_contents_size:
  "re_measure_max_ttl it_begin rrset_size original_ttl (z\<lparr>contents_size := s\<rparr>) limit =
   re_measure_max_ttl it_begin rrset_size original_ttl z limit"
  by (simp add: re_measure_max_ttl_def)

lemma add_one_error:
  "ret \<noteq> KNOT_EOK \<Longrightarrow> add_one crem cadd rr ch rem fl ret = (ret, ch)"
  by (simp add: add_one_def)

lemma add_one_ok:
  "add_one crem cadd rr ch rem fl KNOT_EOK =
     (if knot_rrset_empty rr then (KNOT_EOK, ch) else (if rem then crem else cadd) ch rr fl)"
  by (simp add: add_one_def)

lemma add_one_chain_error:
  "ret \<noteq> KNOT_EOK \<Longrightarrow>
   foldl (\<lambda>(ret, ch) rr. add_one crem cadd rr ch rem fl ret) (ret, ch) rrsets = (ret, ch)"
  by (induction rrsets) (simp_all add: add_one_error)

lemma add_one_chain:
  "foldl (\<lambda>(ret, ch) rr. add_one crem cadd rr ch rem fl ret) (KNOT_EOK, ch) rrsets =
   append_until_error (if rem then crem else cadd) fl
     (filter (\<lambda>rr. \<not> knot_rrset_empty rr) rrsets) ch"
proof (induction rrsets arbitrary: ch)
  case Nil
  show ?case by simp
next
  case (Cons rr rest)
  show ?case
  proof (cases "knot_rrset_empty rr")
    case True
    then show ?thesis using Cons.IH [of ch] by (simp add: add_one_ok)
  next
    case False
    obtain ret ch' where step: "(if rem then crem else cadd) ch rr fl = (ret, ch')"
      by (cases "(if rem then crem else cadd) ch rr fl")
    show ?thesis
    proof (cases "ret = KNOT_EOK")
      case True
      with False step Cons.IH [of ch'] show ?thesis by (simp add: add_one_ok)
    next
      case ne: False
      with False step show ?thesis by (simp add: add_one_ok add_one_chain_error)
    qed
  qed
qed

lemma key_records_to_changeset_foldl:
  "key_records_to_changeset crem cadd r ch rem fl =
   foldl (\<lambda>(ret, ch) rr. add_one crem cadd rr ch rem fl ret) (KNOT_EOK, ch)
     [dnskey r, cdnskey r, cds r]"
  by (simp add: key_records_to_changeset_def Let_def case_prod_beta)

lemma key_size_check_limits:
  "get_limits algorithm = Some \<lparr>lim_min = lo, lim_max = hi, lim_def = d, lim_validate = None\<rparr> \<Longrightarrow>
   dnssec_algorithm_key_size_check algorithm bits = (lo \<le> bits \<and> bits \<le> hi)"
  by (auto simp: dnssec_algorithm_key_size_check_def)

lemma be16_roundtrip: "be16toh (htobe16 v) = v"
  unfolding be16toh_def htobe16_def
  apply simp
  apply (rule bit_word_eqI)
  apply (auto simp: bit_simps)
  done

lemma length_htobe16: "length (htobe16 v) = 2"
  by (simp add: htobe16_def)

lemma unat_of_nat16: "n < 65536 \<Longrightarrow> unat (of_nat n :: 16 word) = n"
  by (simp add: unat_of_nat)

lemma length_rdata_bytes: "length (rdata_bytes rd) = 2 + length rd"
  by (simp add: rdata_bytes_def length_htobe16)

lemma rdata_bytes_append: "rdata_bytes rd @ xs = htobe16 (of_nat (length rd)) @ rd @ xs"
  by (simp add: rdata_bytes_def)

lemma length_rrset_bytes: "length (rrset_bytes rr) = rrset_serialized_size rr"
  by (simp add: rrset_bytes_def rrset_serialized_size_def length_htobe16 length_concat
        length_rdata_bytes comp_def)

lemma written_write:
  assumes "written w bs" and "length bs + length d \<le> length (wire w)"
  shows "written (wire_ctx_write w d) (bs @ d) \<and> length (wire (wire_ctx_write w d)) = length (wire w)"
proof (cases "d = []")
  case True
  with assms show ?thesis by (simp add: wire_ctx_write_def written_def)
next
  case False
  from assms have can: "wire_ctx_can_write w (length d) = KNOT_EOK"
    by (simp add: wire_ctx_can_write_def written_def wire_ctx_available_def wire_ctx_offset_def)
  from assms have e: "error w = KNOT_EOK" by (simp add: written_def)
  have eq: "wire_ctx_write w d =
      w\<lparr>wire := take (position w) (wire w) @ d @ drop (position w + length d) (wire w),
        position := position w + length d\<rparr>"
    using False can e by (simp add: wire_ctx_write_def)
  from assms show ?thesis
    unfolding eq by (simp add: written_def)
qed

lemma written_write_u16:
  assumes "written w bs" and "length bs + 2 \<le> length (wire w)"
  shows "written (wire_ctx_write_u16 w v) (bs @ htobe16 v) \<and>
         length (wire (wire_ctx_write_u16 w v)) = length (wire w)"
  using written_write [of w bs "htobe16 v"] assms
  by (simp add: wire_ctx_write_u16_def length_htobe16)

lemma written_rdata_loop:
  assumes "written w bs"
    and "length bs + length (concat (map rdata_bytes rds)) \<le> length (wire w)"
  shows "written (serialize_rdata_loop w rds) (bs @ concat (map rdata_bytes rds)) \<and>
         length (wire (serialize_rdata_loop w rds)) = length (wire w)"
  using assms
proof (induction rds arbitrary: w bs)
  case Nil
  then show ?case by simp
next
  case (Cons rd rest)
  let ?v = "of_nat (length rd) :: 16 word"
  let ?w1 = "wire_ctx_write_u16 w ?v"
  let ?w2 = "wire_ctx_write ?w1 rd"
  from Cons.prems have room: "length bs + 2 + length rd + length (concat (map rdata_bytes rest))
       \<le> length (wire w)"
    by (simp add: length_rdata_bytes)
  have w1: "written ?w1 (bs @ htobe16 ?v)" "length (wire ?w1) = length (wire w)"
    using written_write_u16 [of w bs ?v] Cons.prems(1) room by simp_all
  have w2: "written ?w2 ((bs @ htobe16 ?v) @ rd)" "length (wire ?w2) = length (wire w)"
    using written_write [of ?w1 "bs @ htobe16 ?v" rd] w1 room by (simp_all add: length_htobe16)
  have "written (serialize_rdata_loop ?w2 rest) (((bs @ htobe16 ?v) @ rd) @ concat (map rdata_bytes rest)) \<and>
        length (wire (serialize_rdata_loop ?w2 rest)) = length (wire ?w2)"
    using Cons.IH [of ?w2 "(bs @ htobe16 ?v) @ rd"] w2 room by (simp add: length_htobe16)
  then show ?case using w2(2) by (simp add: rdata_bytes_append)
qed

lemma written_serialize_rrset:
  assumes "written w bs" and "length bs + rrset_serialized_size rr \<le> length (wire w)"
  shows "fst (serialize_rrset w rr) = KNOT_EOK \<and>
         written (snd (serialize_rrset w rr)) (bs @ rrset_bytes rr) \<and>
         length (wire (snd (serialize_rrset w rr))) = length (wire w)"
proof -
  let ?v = "of_nat (length (rrs rr)) :: 16 word"
  let ?w1 = "wire_ctx_write_u16 w ?v"
  from assms(2) have room: "length bs + 2 + length (concat (map rdata_bytes (rrs rr))) \<le> length (wire w)"
    using length_rrset_bytes [of rr] by (simp add: rrset_bytes_def length_htobe16)
  have w1: "written ?w1 (bs @ htobe16 ?v)" "length (wire ?w1) = length (wire w)"
    using written_write_u16 [of w bs ?v] assms(1) room by simp_all
  have w2: "written (serialize_rdata_loop ?w1 (rrs rr)) ((bs @ htobe16 ?v) @ concat (map rdata_bytes (rrs rr))) \<and>
        length (wire (serialize_rdata_loop ?w1 (rrs rr))) = length (wire ?w1)"
    using written_rdata_loop [of ?w1 "bs @ htobe16 ?v" "rrs rr"] w1 room by (simp add: length_htobe16)
  then show ?thesis using w1(2)
    by (simp add: serialize_rrset_def Let_def rrset_bytes_def written_def)
qed


lemma unread_read:
  assumes "unread w (d @ rest)"
  shows "wire_ctx_read w (length d) = (d, w\<lparr>position := position w + length d\<rparr>) \<and>
         unread (w\<lparr>position := position w + length d\<rparr>) rest"
proof -
  from assms have e: "error w = KNOT_EOK" and sz: "wire_size w = length (wire w)"
    and dr: "drop (position w) (wire w) = d @ rest"
    by (simp_all add: unread_def)
  from dr have len: "length (wire w) - position w = length d + length rest"
    by (metis length_append length_drop)
  then have can: "wire_ctx_can_read w (length d) = KNOT_EOK"
    using e sz by (simp add: wire_ctx_can_read_def wire_ctx_available_def wire_ctx_offset_def)
  have tk: "take (length d) (drop (position w) (wire w)) = d"
    by (simp add: dr)
  have "drop (position w + length d) (wire w) = drop (length d) (drop (position w) (wire w))"
    by (simp add: add.commute)
  then have dr': "drop (position w + length d) (wire w) = rest"
    by (simp add: dr)
  show ?thesis
    using e sz can tk dr' by (simp add: wire_ctx_read_def unread_def)
qed

lemma unread_read_u16:
  assumes "unread w (htobe16 v @ rest)"
  shows "wire_ctx_read_u16 w = (v, w\<lparr>position := position w + 2\<rparr>) \<and>
         unread (w\<lparr>position := position w + 2\<rparr>) rest"
  using unread_read [of w "htobe16 v" rest] assms
  by (simp add: wire_ctx_read_u16_def length_htobe16 be16_roundtrip)

lemma unread_available:
  "unread w (d @ rest) \<Longrightarrow> length d \<le> wire_ctx_available w"
proof -
  assume a: "unread w (d @ rest)"
  then have "length (wire w) - position w = length d + length rest"
    by (metis length_append length_drop unread_def)
  with a show ?thesis by (simp add: unread_def wire_ctx_available_def wire_ctx_offset_def)
qed

lemma unread_rdata_loop:
  assumes "unread w (concat (map rdata_bytes rds) @ rest)"
    and "\<forall>rd \<in> set rds. length rd < 65536"
  shows "\<exists>w'. deserialize_rdata_loop (length rds) w acc = (KNOT_EOK, acc @ rds, w') \<and> unread w' rest"
  using assms
proof (induction rds arbitrary: w acc)
  case Nil
  then show ?case by simp
next
  case (Cons rd rds)
  let ?v = "of_nat (length rd) :: 16 word"
  let ?w1 = "w\<lparr>position := position w + 2\<rparr>"
  let ?w2 = "?w1\<lparr>position := position ?w1 + length rd\<rparr>"
  from Cons.prems(2) have len: "unat ?v = length rd"
    by (simp add: unat_of_nat16)
  from Cons.prems(1) have u0: "unread w (htobe16 ?v @ (rd @ concat (map rdata_bytes rds) @ rest))"
    by (simp add: rdata_bytes_append)
  have r1: "wire_ctx_read_u16 w = (?v, ?w1)" and u1: "unread ?w1 (rd @ concat (map rdata_bytes rds) @ rest)"
    using unread_read_u16 [OF u0] by simp_all
  have av: "length rd \<le> wire_ctx_available ?w1"
    using unread_available [OF u1] .
  have e1: "error ?w1 = KNOT_EOK" using u1 by (simp add: unread_def)
  have r2: "wire_ctx_read ?w1 (length rd) = (rd, ?w2)"
    and u2: "unread ?w2 (concat (map rdata_bytes rds) @ rest)"
    using unread_read [OF u1] by simp_all
  from Cons.prems(2) have rest_ok: "\<forall>rd \<in> set rds. length rd < 65536" by simp
  obtain w' where "deserialize_rdata_loop (length rds) ?w2 (acc @ [rd]) = (KNOT_EOK, (acc @ [rd]) @ rds, w')"
    and "unread w' rest"
    using Cons.IH [OF u2 rest_ok, of "acc @ [rd]"] by blast
  then show ?case
    using r1 r2 av e1 len by (simp add: Let_def)
qed

lemma unread_deserialize_rrset:
  assumes "unread w (rrset_bytes rr @ rest)" and "rrset_encodable rr"
  shows "\<exists>w'. deserialize_rrset w tgt = (KNOT_EOK, tgt\<lparr>rrs := rrs rr\<rparr>, w') \<and> unread w' rest"
proof -
  let ?v = "of_nat (length (rrs rr)) :: 16 word"
  let ?w1 = "w\<lparr>position := position w + 2\<rparr>"
  from assms(2) have len: "unat ?v = length (rrs rr)"
    and all: "\<forall>rd \<in> set (rrs rr). length rd < 65536"
    by (simp_all add: rrset_encodable_def unat_of_nat16)
  from assms(1) have u0: "unread w (htobe16 ?v @ (concat (map rdata_bytes (rrs rr)) @ rest))"
    by (simp add: rrset_bytes_def)
  have r1: "wire_ctx_read_u16 w = (?v, ?w1)"
    and u1: "unread ?w1 (concat (map rdata_bytes (rrs rr)) @ rest)"
    using unread_read_u16 [OF u0] by simp_all
  have e1: "error ?w1 = KNOT_EOK" using u1 by (simp add: unread_def)
  obtain w' where "deserialize_rdata_loop (length (rrs rr)) ?w1 [] = (KNOT_EOK, [] @ rrs rr, w')"
    and "unread w' rest"
    using unread_rdata_loop [OF u1 all, of "[]"] by blast
  then show ?thesis
    using r1 e1 len by (simp add: deserialize_rrset_def Let_def)
qed

lemma written_init: "written (wire_ctx_init buf) []"
  by (simp add: written_def wire_ctx_init_def)

lemma unread_init_const: "unread (wire_ctx_init_const bs) bs"
  by (simp add: unread_def wire_ctx_init_const_def wire_ctx_init_def)

lemma key_records_serialize_written:
  assumes "key_records_serialized_size rrset_serialized_size r \<le> length buf"
  shows "fst (key_records_serialize serialize_rrset (wire_ctx_init buf) r) = KNOT_EOK \<and>
         written (snd (key_records_serialize serialize_rrset (wire_ctx_init buf) r))
           (rrset_bytes (dnskey r) @ rrset_bytes (cdnskey r) @ rrset_bytes (cds r) @ rrset_bytes (rrsig r))"
proof -
  let ?w0 = "wire_ctx_init buf"
  have l0: "length (wire ?w0) = length buf" by (simp add: wire_ctx_init_def)
  from assms have room: "rrset_serialized_size (dnskey r) + rrset_serialized_size (cdnskey r) +
     rrset_serialized_size (cds r) + rrset_serialized_size (rrsig r) \<le> length buf"
    by (simp add: key_records_serialized_size_def)
  obtain ret1 w1 where s1: "serialize_rrset ?w0 (dnskey r) = (ret1, w1)"
    by (cases "serialize_rrset ?w0 (dnskey r)")
  have p1: "ret1 = KNOT_EOK" "written w1 (rrset_bytes (dnskey r))" "length (wire w1) = length buf"
    using written_serialize_rrset [of ?w0 "[]" "dnskey r"] written_init [of buf] s1 l0 room
    by simp_all
  obtain ret2 w2 where s2: "serialize_rrset w1 (cdnskey r) = (ret2, w2)"
    by (cases "serialize_rrset w1 (cdnskey r)")
  have p2: "ret2 = KNOT_EOK" "written w2 (rrset_bytes (dnskey r) @ rrset_bytes (cdnskey r))"
      "length (wire w2) = length buf"
    using written_serialize_rrset [of w1 "rrset_bytes (dnskey r)" "cdnskey r"] p1 s2 room
    by (simp_all add: length_rrset_bytes)
  obtain ret3 w3 where s3: "serialize_rrset w2 (cds r) = (ret3, w3)"
    by (cases "serialize_rrset w2 (cds r)")
  have p3: "ret3 = KNOT_EOK"
      "written w3 ((rrset_bytes (dnskey r) @ rrset_bytes (cdnskey r)) @ rrset_bytes (cds r))"
      "length (wire w3) = length buf"
    using written_serialize_rrset [of w2 "rrset_bytes (dnskey r) @ rrset_bytes (cdnskey r)" "cds r"]
      p2 s3 room
    by (simp_all add: length_rrset_bytes)
  obtain ret4 w4 where s4: "serialize_rrset w3 (rrsig r) = (ret4, w4)"
    by (cases "serialize_rrset w3 (rrsig r)")
  have p4: "ret4 = KNOT_EOK"
      "written w4 (((rrset_bytes (dnskey r) @ rrset_bytes (cdnskey r)) @ rrset_bytes (cds r)) @
                    rrset_bytes (rrsig r))"
    using written_serialize_rrset
        [of w3 "(rrset_bytes (dnskey r) @ rrset_bytes (cdnskey r)) @ rrset_bytes (cds r)" "rrsig r"]
      p3 s4 room
    by (simp_all add: length_rrset_bytes)
  have "key_records_serialize serialize_rrset ?w0 r = (ret4, w4)"
    using s1 s2 s3 s4 p1(1) p2(1) p3(1) by (simp add: key_records_serialize_def)
  with p4 show ?thesis by simp
qed

lemma key_records_deserialize_unread:
  assumes "unread w (rrset_bytes (dnskey r) @ rrset_bytes (cdnskey r) @ rrset_bytes (cds r) @
                    rrset_bytes (rrsig r) @ rest)"
    and "key_records_encodable r"
  shows "\<exists>w'. key_records_deserialize deserialize_rrset w r0 =
           (KNOT_EOK,
            r0\<lparr>dnskey := (dnskey r0)\<lparr>rrs := rrs (dnskey r)\<rparr>,
               cdnskey := (cdnskey r0)\<lparr>rrs := rrs (cdnskey r)\<rparr>,
               cds := (cds r0)\<lparr>rrs := rrs (cds r)\<rparr>,
               rrsig := (rrsig r0)\<lparr>rrs := rrs (rrsig r)\<rparr>\<rparr>, w') \<and> unread w' rest"
proof -
  from assms(2) have enc: "rrset_encodable (dnskey r)" "rrset_encodable (cdnskey r)"
      "rrset_encodable (cds r)" "rrset_encodable (rrsig r)"
    by (simp_all add: key_records_encodable_def)
  obtain w1 where d1: "deserialize_rrset w (dnskey r0) = (KNOT_EOK, (dnskey r0)\<lparr>rrs := rrs (dnskey r)\<rparr>, w1)"
    and u1: "unread w1 (rrset_bytes (cdnskey r) @ rrset_bytes (cds r) @ rrset_bytes (rrsig r) @ rest)"
    using unread_deserialize_rrset [OF assms(1) enc(1), of "dnskey r0"] by blast
  obtain w2 where d2: "deserialize_rrset w1 (cdnskey r0) = (KNOT_EOK, (cdnskey r0)\<lparr>rrs := rrs (cdnskey r)\<rparr>, w2)"
    and u2: "unread w2 (rrset_bytes (cds r) @ rrset_bytes (rrsig r) @ rest)"
    using unread_deserialize_rrset [OF u1 enc(2), of "cdnskey r0"] by blast
  obtain w3 where d3: "deserialize_rrset w2 (cds r0) = (KNOT_EOK, (cds r0)\<lparr>rrs := rrs (cds r)\<rparr>, w3)"
    and u3: "unread w3 (rrset_bytes (rrsig r) @ rest)"
    using unread_deserialize_rrset [OF u2 enc(3), of "cds r0"] by blast
  obtain w4 where d4: "deserialize_rrset w3 (rrsig r0) = (KNOT_EOK, (rrsig r0)\<lparr>rrs := rrs (rrsig r)\<rparr>, w4)"
    and u4: "unread w4 rest"
    using unread_deserialize_rrset [OF u3 enc(4), of "rrsig r0"] by blast
  have "key_records_deserialize deserialize_rrset w r0 =
           (KNOT_EOK,
            r0\<lparr>dnskey := (dnskey r0)\<lparr>rrs := rrs (dnskey r)\<rparr>,
               cdnskey := (cdnskey r0)\<lparr>rrs := rrs (cdnskey r)\<rparr>,
               cds := (cds r0)\<lparr>rrs := rrs (cds r)\<rparr>,
               rrsig := (rrsig r0)\<lparr>rrs := rrs (rrsig r)\<rparr>\<rparr>, w4)"
    using d1 d2 d3 d4 by (simp add: key_records_deserialize_def)
  with u4 show ?thesis by blast
qed

text \<open>
  When \<open>dnssec_sign_new\<close> succeeds, \<open>key_records_sign\<close> signs exactly the families
  among DNSKEY, CDNSKEY and CDS that are not empty and that the key may sign, in this
  order, and stops at the first error of \<open>knot_sign_rrset\<close>, which it returns.
\<close>

lemma sign_chain_error:
  "ret \<noteq> KNOT_EOK \<Longrightarrow>
   foldl (\<lambda>(ret, sigs) rr.
            if ret = KNOT_EOK \<and> \<not> knot_rrset_empty rr \<and> use_key zkey rr
            then sign_rrset sigs rr k sign_ctx kctx else (ret, sigs)) (ret, sigs) rrsets = (ret, sigs)"
  by (induction rrsets) simp_all

lemma sign_chain:
  "foldl (\<lambda>(ret, sigs) rr.
            if ret = KNOT_EOK \<and> \<not> knot_rrset_empty rr \<and> use_key zkey rr
            then sign_rrset sigs rr k sign_ctx kctx else (ret, sigs)) (KNOT_EOK, sigs) rrsets =
   sign_until_error sign_rrset k sign_ctx kctx
     (filter (\<lambda>rr. \<not> knot_rrset_empty rr \<and> use_key zkey rr) rrsets) sigs"
proof (induction rrsets arbitrary: sigs)
  case Nil
  show ?case by simp
next
  case (Cons rr rest)
  show ?case
  proof (cases "\<not> knot_rrset_empty rr \<and> use_key zkey rr")
    case False
    then show ?thesis using Cons.IH [of sigs] by auto
  next
    case True
    obtain ret sigs' where step: "sign_rrset sigs rr k sign_ctx kctx = (ret, sigs')"
      by (cases "sign_rrset sigs rr k sign_ctx kctx")
    show ?thesis
    proof (cases "ret = KNOT_EOK")
      case ok: True
      with True step Cons.IH [of sigs'] show ?thesis by simp
    next
      case ne: False
      with True step show ?thesis by (simp add: sign_chain_error)
    qed
  qed
qed

lemma key_records_sign_foldl:
  assumes "sign_new (key zkey) = (DNSSEC_EOK, sign_ctx)"
  shows "key_records_sign sign_new from_libdnssec use_key sign_rrset zkey r kctx =
     (case foldl (\<lambda>(ret, sigs) rr.
            if ret = KNOT_EOK \<and> \<not> knot_rrset_empty rr \<and> use_key zkey rr
            then sign_rrset sigs rr (key zkey) sign_ctx kctx else (ret, sigs))
          (KNOT_EOK, rrsig r) [dnskey r, cdnskey r, cds r] of
        (ret, sigs) \<Rightarrow> (ret, r\<lparr>rrsig := sigs\<rparr>))"
  using assms
  by (simp add: key_records_sign_def Let_def case_prod_beta split del: if_split cong: if_cong)

lemma key_records_sign_sign_new_ok:
  assumes "sign_new (key zkey) = (DNSSEC_EOK, sign_ctx)"
  shows "key_records_sign sign_new from_libdnssec use_key sign_rrset zkey r kctx =
     (case sign_until_error sign_rrset (key zkey) sign_ctx kctx
             (filter (\<lambda>rr. \<not> knot_rrset_empty rr \<and> use_key zkey rr) [dnskey r, cdnskey r, cds r])
             (rrsig r) of
        (ret, sigs) \<Rightarrow> (ret, r\<lparr>rrsig := sigs\<rparr>))"
  using assms
  by (simp only: key_records_sign_foldl [where sign_new = sign_new and zkey = zkey
        and sign_ctx = sign_ctx] sign_chain)

subsection \<open>Key algorithms\<close>

text \<open>
  Claim C7, as amended. A key size is accepted for an algorithm exactly within the bounds
  of its family: 1024 to 4096 bits for the four RSA variants, exactly 256 for ECDSA P-256,
  exactly 384 for ECDSA P-384, exactly 256 for Ed25519 and exactly 456 for Ed448; the
  default sizes are 2048, 256, 384, 256 and 456. For an algorithm outside the table the
  size check is false and the default size is 0, and the range query returns the
  invalid-algorithm error when at least one of its two output pointers is given. With both
  pointers null the range query returns the invalid-argument error and stores nothing,
  whatever the algorithm, recognized or not.
\<close>

theorem key_size_policy:
  "dnssec_algorithm_key_size_check DNSSEC_KEY_ALGORITHM_RSA_SHA1 bits = (1024 \<le> bits \<and> bits \<le> 4096) \<and>
   dnssec_algorithm_key_size_check DNSSEC_KEY_ALGORITHM_RSA_SHA1_NSEC3 bits = (1024 \<le> bits \<and> bits \<le> 4096) \<and>
   dnssec_algorithm_key_size_check DNSSEC_KEY_ALGORITHM_RSA_SHA256 bits = (1024 \<le> bits \<and> bits \<le> 4096) \<and>
   dnssec_algorithm_key_size_check DNSSEC_KEY_ALGORITHM_RSA_SHA512 bits = (1024 \<le> bits \<and> bits \<le> 4096) \<and>
   dnssec_algorithm_key_size_check DNSSEC_KEY_ALGORITHM_ECDSA_P256_SHA256 bits = (bits = 256) \<and>
   dnssec_algorithm_key_size_check DNSSEC_KEY_ALGORITHM_ECDSA_P384_SHA384 bits = (bits = 384) \<and>
   dnssec_algorithm_key_size_check DNSSEC_KEY_ALGORITHM_ED25519 bits = (bits = 256) \<and>
   dnssec_algorithm_key_size_check DNSSEC_KEY_ALGORITHM_ED448 bits = (bits = 456) \<and>
   dnssec_algorithm_key_size_check (DNSSEC_KEY_ALGORITHM_OTHER n) bits = False \<and>
   dnssec_algorithm_key_size_default DNSSEC_KEY_ALGORITHM_RSA_SHA1 = 2048 \<and>
   dnssec_algorithm_key_size_default DNSSEC_KEY_ALGORITHM_RSA_SHA1_NSEC3 = 2048 \<and>
   dnssec_algorithm_key_size_default DNSSEC_KEY_ALGORITHM_RSA_SHA256 = 2048 \<and>
   dnssec_algorithm_key_size_default DNSSEC_KEY_ALGORITHM_RSA_SHA512 = 2048 \<and>
   dnssec_algorithm_key_size_default DNSSEC_KEY_ALGORITHM_ECDSA_P256_SHA256 = 256 \<and>
   dnssec_algorithm_key_size_default DNSSEC_KEY_ALGORITHM_ECDSA_P384_SHA384 = 384 \<and>
   dnssec_algorithm_key_size_default DNSSEC_KEY_ALGORITHM_ED25519 = 256 \<and>
   dnssec_algorithm_key_size_default DNSSEC_KEY_ALGORITHM_ED448 = 456 \<and>
   dnssec_algorithm_key_size_default (DNSSEC_KEY_ALGORITHM_OTHER n) = 0 \<and>
   fst (dnssec_algorithm_key_size_range (DNSSEC_KEY_ALGORITHM_OTHER n) min_ptr max_ptr) =
     (if min_ptr \<or> max_ptr then DNSSEC_INVALID_KEY_ALGORITHM else DNSSEC_EINVAL) \<and>
   dnssec_algorithm_key_size_range algorithm False False = (DNSSEC_EINVAL, None, None)"
proof -
  have fixed: "\<And>a k d. get_limits a = Some \<lparr>lim_min = k, lim_max = k, lim_def = d, lim_validate = None\<rparr>
      \<Longrightarrow> dnssec_algorithm_key_size_check a bits = (bits = k)"
    by (auto simp: key_size_check_limits)
  have rsa: "\<And>a. get_limits a = Some RSA \<Longrightarrow>
      dnssec_algorithm_key_size_check a bits = (1024 \<le> bits \<and> bits \<le> 4096)"
    by (simp add: RSA_def key_size_check_limits)
  have chk: "dnssec_algorithm_key_size_check DNSSEC_KEY_ALGORITHM_RSA_SHA1 bits = (1024 \<le> bits \<and> bits \<le> 4096)"
     "dnssec_algorithm_key_size_check DNSSEC_KEY_ALGORITHM_RSA_SHA1_NSEC3 bits = (1024 \<le> bits \<and> bits \<le> 4096)"
     "dnssec_algorithm_key_size_check DNSSEC_KEY_ALGORITHM_RSA_SHA256 bits = (1024 \<le> bits \<and> bits \<le> 4096)"
     "dnssec_algorithm_key_size_check DNSSEC_KEY_ALGORITHM_RSA_SHA512 bits = (1024 \<le> bits \<and> bits \<le> 4096)"
    by (simp_all add: rsa)
  have chk2: "dnssec_algorithm_key_size_check DNSSEC_KEY_ALGORITHM_ECDSA_P256_SHA256 bits = (bits = 256)"
    "dnssec_algorithm_key_size_check DNSSEC_KEY_ALGORITHM_ECDSA_P384_SHA384 bits = (bits = 384)"
    "dnssec_algorithm_key_size_check DNSSEC_KEY_ALGORITHM_ED25519 bits = (bits = 256)"
    "dnssec_algorithm_key_size_check DNSSEC_KEY_ALGORITHM_ED448 bits = (bits = 456)"
    by (simp_all add: fixed EC256_def EC384_def ED25519_def ED448_def)
  have chk3: "dnssec_algorithm_key_size_check (DNSSEC_KEY_ALGORITHM_OTHER n) bits = False"
    by (simp add: dnssec_algorithm_key_size_check_def)
  have dflt: "dnssec_algorithm_key_size_default DNSSEC_KEY_ALGORITHM_RSA_SHA1 = 2048"
   "dnssec_algorithm_key_size_default DNSSEC_KEY_ALGORITHM_RSA_SHA1_NSEC3 = 2048"
   "dnssec_algorithm_key_size_default DNSSEC_KEY_ALGORITHM_RSA_SHA256 = 2048"
   "dnssec_algorithm_key_size_default DNSSEC_KEY_ALGORITHM_RSA_SHA512 = 2048"
   "dnssec_algorithm_key_size_default DNSSEC_KEY_ALGORITHM_ECDSA_P256_SHA256 = 256"
   "dnssec_algorithm_key_size_default DNSSEC_KEY_ALGORITHM_ECDSA_P384_SHA384 = 384"
   "dnssec_algorithm_key_size_default DNSSEC_KEY_ALGORITHM_ED25519 = 256"
   "dnssec_algorithm_key_size_default DNSSEC_KEY_ALGORITHM_ED448 = 456"
   "dnssec_algorithm_key_size_default (DNSSEC_KEY_ALGORITHM_OTHER n) = 0"
    by (simp_all add: dnssec_algorithm_key_size_default_def RSA_def EC256_def EC384_def
          ED25519_def ED448_def)
  have rng: "fst (dnssec_algorithm_key_size_range (DNSSEC_KEY_ALGORITHM_OTHER n) min_ptr max_ptr) =
     (if min_ptr \<or> max_ptr then DNSSEC_INVALID_KEY_ALGORITHM else DNSSEC_EINVAL)"
    by (simp add: dnssec_algorithm_key_size_range_def)
  have both_null: "dnssec_algorithm_key_size_range algorithm False False = (DNSSEC_EINVAL, None, None)"
    by (simp add: dnssec_algorithm_key_size_range_def)
  from chk chk2 chk3 dflt rng both_null show ?thesis by blast
qed

text \<open>
  The claim C7 as first stated (the range query of an unrecognized algorithm always fails
  with the invalid-algorithm error) does not hold when both output pointers are null: the
  null check comes first and the result is \<open>DNSSEC_EINVAL\<close>.
\<close>

theorem key_size_range_null_pointers_counterexample:
  "fst (dnssec_algorithm_key_size_range (DNSSEC_KEY_ALGORITHM_OTHER 0) False False) = DNSSEC_EINVAL \<and>
   DNSSEC_EINVAL \<noteq> DNSSEC_INVALID_KEY_ALGORITHM"
  by (simp add: dnssec_algorithm_key_size_range_def)

text \<open>
  Claim C8. For every value of \<open>enabled\<close>, \<open>dnssec_algorithm_reproducible\<close> is true for
  Ed25519 and Ed448, is \<open>enabled\<close> for ECDSA P-256 and P-384, and is false for every
  other algorithm, the RSA variants included.
\<close>

theorem dnssec_algorithm_reproducible_spec:
  "dnssec_algorithm_reproducible algorithm enabled =
     (algorithm \<in> {DNSSEC_KEY_ALGORITHM_ED25519, DNSSEC_KEY_ALGORITHM_ED448} \<or>
      (algorithm \<in> {DNSSEC_KEY_ALGORITHM_ECDSA_P256_SHA256,
                      DNSSEC_KEY_ALGORITHM_ECDSA_P384_SHA384} \<and> enabled))"
  by (cases algorithm) simp_all

subsection \<open>Zone measurement\<close>

text \<open>
  Claim C9. \<open>knot_measure_node\<close> returns false exactly when size measuring is off and TTL
  measuring is either off or in limit mode with the accumulated maximum at or above the
  limit; and when it returns false the accumulator is unchanged.
\<close>

theorem knot_measure_node_false:
  "(fst (knot_measure_node rrset_size original_ttl node m) = False) =
     (how_size m = MEASURE_SIZE_NONE \<and>
      (how_ttl m = MEASURE_TTL_NONE \<or>
       (how_ttl m = MEASURE_TTL_LIMIT \<and> limit_max_ttl m \<le> max_ttl m))) \<and>
   (fst (knot_measure_node rrset_size original_ttl node m) = False \<longrightarrow>
      snd (knot_measure_node rrset_size original_ttl node m) = m)"
  by (simp add: knot_measure_node_def Let_def)

theorem knot_measure_node_false_witness:
  "fst (knot_measure_node ex_knot_rrset_size ex_knot_rrsig_original_ttl ex_node
          (measure_zero\<lparr>how_ttl := MEASURE_TTL_LIMIT, max_ttl := 600, limit_max_ttl := 300\<rparr>)) = False \<and>
   snd (knot_measure_node ex_knot_rrset_size ex_knot_rrsig_original_ttl ex_node
          (measure_zero\<lparr>how_ttl := MEASURE_TTL_LIMIT, max_ttl := 600, limit_max_ttl := 300\<rparr>)) =
     measure_zero\<lparr>how_ttl := MEASURE_TTL_LIMIT, max_ttl := 600, limit_max_ttl := 300\<rparr>"
  using knot_measure_node_false [of ex_knot_rrset_size ex_knot_rrsig_original_ttl ex_node
          "measure_zero\<lparr>how_ttl := MEASURE_TTL_LIMIT, max_ttl := 600, limit_max_ttl := 300\<rparr>"]
  by (simp add: measure_zero_def)

text \<open>
  Claim C6. In TTL-diff mode \<open>knot_measure_finish_update\<close> takes the new maximum TTL from
  the re-scan of the whole new zone (\<open>re_measure_max_ttl\<close>, with the old maximum as the
  limit) only when the maximum over the added records is strictly below the old zone
  maximum and the maximum over the removed records is at least the old zone maximum; in
  every other case the new maximum is the larger of the accumulated maximum and the old
  zone maximum, whatever the zone holds.
\<close>

theorem knot_measure_finish_update_ttl_diff:
  assumes "how_ttl m = MEASURE_TTL_DIFF"
  shows "contents_max_ttl (new_cont (knot_measure_finish_update it_begin rrset_size original_ttl m update)) =
    (if max_ttl m < contents_max_ttl (zone_contents update) \<and>
        contents_max_ttl (zone_contents update) \<le> rem_max_ttl m
     then re_measure_max_ttl it_begin rrset_size original_ttl (new_cont update)
            (contents_max_ttl (zone_contents update))
     else max (max_ttl m) (contents_max_ttl (zone_contents update)))"
  using assms
  by (cases "how_size m")
     (auto simp: knot_measure_finish_update_def Let_def max_def re_measure_max_ttl_contents_size)

theorem knot_measure_finish_update_ttl_diff_witness:
  "how_ttl ex_measure_diff = MEASURE_TTL_DIFF \<and>
   contents_max_ttl (new_cont (knot_measure_finish_update ex_zone_tree_it_double_begin
      ex_knot_rrset_size ex_knot_rrsig_original_ttl ex_measure_diff ex_update)) = 600"
  using knot_measure_finish_update_ttl_diff [of ex_measure_diff ex_zone_tree_it_double_begin
      ex_knot_rrset_size ex_knot_rrsig_original_ttl ex_update]
  by (simp add: ex_measure_diff_def ex_update_def measure_zero_def re_measure_max_ttl_def
        ex_zone_tree_it_double_begin_def knot_measure_node_def ex_node_def ex_rrset_def
        rrset_max_ttl_def KNOT_RRTYPE_RRSIG_def Let_def)

subsection \<open>Key record sets\<close>



text \<open>
  Claim C5. \<open>key_records_to_changeset\<close> appends the non-empty families among DNSKEY,
  CDNSKEY and CDS, in this order and never the RRSIG family, each as a removal or as an
  addition according to \<open>as_removal\<close> and with the given flags; the first append that
  does not return \<open>KNOT_EOK\<close> ends the run, the remaining families are not appended and
  its return code is the result.
\<close>

theorem key_records_to_changeset_spec:
  "key_records_to_changeset changeset_add_removal changeset_add_addition r ch as_removal flags =
   append_until_error (if as_removal then changeset_add_removal else changeset_add_addition) flags
     (filter (\<lambda>rr. \<not> knot_rrset_empty rr) [dnskey r, cdnskey r, cds r]) ch"
  by (simp only: key_records_to_changeset_foldl add_one_chain)

text \<open>
  Claim C1. For every key-record set, empty or populated, whose RDATA counts and lengths
  fit their 16-bit fields, and every buffer that has room for it, \<open>key_records_serialize\<close>
  succeeds and writes the four families in the order DNSKEY, CDNSKEY, CDS, RRSIG; and
  \<open>key_records_deserialize\<close> on the bytes produced succeeds and gives each of the four
  families the RDATA that was serialized, byte for byte and in the same order.
\<close>

theorem key_records_serialize_roundtrip:
  assumes "key_records_encodable r"
    and "key_records_serialized_size rrset_serialized_size r \<le> length buf"
  shows "serialize_then_deserialize r buf r0 =
     (KNOT_EOK,
      rrset_bytes (dnskey r) @ rrset_bytes (cdnskey r) @ rrset_bytes (cds r) @ rrset_bytes (rrsig r),
      KNOT_EOK,
      r0\<lparr>dnskey := (dnskey r0)\<lparr>rrs := rrs (dnskey r)\<rparr>,
         cdnskey := (cdnskey r0)\<lparr>rrs := rrs (cdnskey r)\<rparr>,
         cds := (cds r0)\<lparr>rrs := rrs (cds r)\<rparr>,
         rrsig := (rrsig r0)\<lparr>rrs := rrs (rrsig r)\<rparr>\<rparr>)"
proof -
  let ?bs = "rrset_bytes (dnskey r) @ rrset_bytes (cdnskey r) @ rrset_bytes (cds r) @
             rrset_bytes (rrsig r)"
  obtain ret out where ser: "key_records_serialize serialize_rrset (wire_ctx_init buf) r = (ret, out)"
    by (cases "key_records_serialize serialize_rrset (wire_ctx_init buf) r")
  have ok: "ret = KNOT_EOK" and wr: "written out ?bs"
    using key_records_serialize_written [OF assms(2)] ser by simp_all
  from wr have bytes: "take (wire_ctx_offset out) (wire out) = ?bs"
    by (simp add: written_def wire_ctx_offset_def)
  have "unread (wire_ctx_init_const ?bs)
          (rrset_bytes (dnskey r) @ rrset_bytes (cdnskey r) @ rrset_bytes (cds r) @
           rrset_bytes (rrsig r) @ [])"
    using unread_init_const [of ?bs] by simp
  from key_records_deserialize_unread [OF this assms(1), of r0]
  obtain w' where de: "key_records_deserialize deserialize_rrset (wire_ctx_init_const ?bs) r0 =
           (KNOT_EOK,
            r0\<lparr>dnskey := (dnskey r0)\<lparr>rrs := rrs (dnskey r)\<rparr>,
               cdnskey := (cdnskey r0)\<lparr>rrs := rrs (cdnskey r)\<rparr>,
               cds := (cds r0)\<lparr>rrs := rrs (cds r)\<rparr>,
               rrsig := (rrsig r0)\<lparr>rrs := rrs (rrsig r)\<rparr>\<rparr>, w')"
    by blast
  show ?thesis
    using ser ok bytes de by (simp add: serialize_then_deserialize_def)
qed

theorem key_records_serialize_roundtrip_witness:
  "serialize_then_deserialize ex_records (replicate 34 0) ex_records_empty =
     (KNOT_EOK,
      [0, 2, 0, 5, 1, 1, 3, 13, 7, 0, 5, 1, 0, 3, 13, 9,
       0, 1, 0, 5, 1, 1, 3, 13, 7,
       0, 0,
       0, 1, 0, 3, 0, 48, 13],
      KNOT_EOK, ex_records) \<and>
   serialize_then_deserialize ex_records_empty (replicate 8 0) ex_records =
     (KNOT_EOK, [0, 0, 0, 0, 0, 0, 0, 0], KNOT_EOK,
      ex_records\<lparr>dnskey := (dnskey ex_records)\<lparr>rrs := []\<rparr>,
                 cdnskey := (cdnskey ex_records)\<lparr>rrs := []\<rparr>,
                 rrsig := (rrsig ex_records)\<lparr>rrs := []\<rparr>\<rparr>)"
proof -
  have enc: "key_records_encodable ex_records"
    by (simp add: key_records_encodable_def rrset_encodable_def ex_records_def ex_rrset_def)
  have sz: "key_records_serialized_size rrset_serialized_size ex_records \<le> length (replicate 34 (0 :: 8 word))"
    by (simp add: key_records_serialized_size_def rrset_serialized_size_def ex_records_def ex_rrset_def)
  have enc0: "key_records_encodable ex_records_empty"
    by (simp add: key_records_encodable_def rrset_encodable_def ex_records_empty_def ex_rrset_def)
  have sz0: "key_records_serialized_size rrset_serialized_size ex_records_empty \<le> length (replicate 8 (0 :: 8 word))"
    by (simp add: key_records_serialized_size_def rrset_serialized_size_def ex_records_empty_def ex_rrset_def)
  have bytes0: "rrset_bytes (dnskey ex_records_empty) @ rrset_bytes (cdnskey ex_records_empty) @
        rrset_bytes (cds ex_records_empty) @ rrset_bytes (rrsig ex_records_empty) =
        [0, 0, 0, 0, 0, 0, 0, 0]"
    by (simp add: rrset_bytes_def htobe16_def ex_records_empty_def ex_rrset_def)
  have bytes: "rrset_bytes (dnskey ex_records) @ rrset_bytes (cdnskey ex_records) @
        rrset_bytes (cds ex_records) @ rrset_bytes (rrsig ex_records) =
        [0, 2, 0, 5, 1, 1, 3, 13, 7, 0, 5, 1, 0, 3, 13, 9,
         0, 1, 0, 5, 1, 1, 3, 13, 7,
         0, 0,
         0, 1, 0, 3, 0, 48, 13]"
    by (simp add: rrset_bytes_def rdata_bytes_def htobe16_def ex_records_def ex_rrset_def)
  have same: "ex_records_empty\<lparr>dnskey := (dnskey ex_records_empty)\<lparr>rrs := rrs (dnskey ex_records)\<rparr>,
         cdnskey := (cdnskey ex_records_empty)\<lparr>rrs := rrs (cdnskey ex_records)\<rparr>,
         cds := (cds ex_records_empty)\<lparr>rrs := rrs (cds ex_records)\<rparr>,
         rrsig := (rrsig ex_records_empty)\<lparr>rrs := rrs (rrsig ex_records)\<rparr>\<rparr> = ex_records"
    by (simp add: ex_records_def ex_records_empty_def ex_rrset_def)
  have same0: "ex_records\<lparr>dnskey := (dnskey ex_records)\<lparr>rrs := rrs (dnskey ex_records_empty)\<rparr>,
         cdnskey := (cdnskey ex_records)\<lparr>rrs := rrs (cdnskey ex_records_empty)\<rparr>,
         cds := (cds ex_records)\<lparr>rrs := rrs (cds ex_records_empty)\<rparr>,
         rrsig := (rrsig ex_records)\<lparr>rrs := rrs (rrsig ex_records_empty)\<rparr>\<rparr> =
      ex_records\<lparr>dnskey := (dnskey ex_records)\<lparr>rrs := []\<rparr>,
                 cdnskey := (cdnskey ex_records)\<lparr>rrs := []\<rparr>,
                 rrsig := (rrsig ex_records)\<lparr>rrs := []\<rparr>\<rparr>"
    by (simp add: ex_records_def ex_records_empty_def ex_rrset_def)
  show ?thesis
    using key_records_serialize_roundtrip [OF enc sz, of ex_records_empty]
      key_records_serialize_roundtrip [OF enc0 sz0, of ex_records]
    by (simp only: bytes bytes0 same same0)
qed

subsection \<open>Signing and verifying\<close>

text \<open>
  Claim C2 says that every error of the signing backend is returned and stops the
  processing of the remaining families. The first \<open>if\<close> of \<open>key_records_sign\<close> does not
  test \<open>ret\<close>, unlike the second and the third: with a non-empty DNSKEY family that the
  key may sign, the outcome of \<open>dnssec_sign_new\<close> has no influence on the result at all.
  Whatever error \<open>e\<close> it returns, the DNSKEY family is still handed to
  \<open>knot_sign_rrset\<close>, and the return code and the RRSIG family are those of the run in
  which \<open>dnssec_sign_new\<close> succeeded.
\<close>

theorem key_records_sign_ignores_sign_new_error:
  "key_records_sign (\<lambda>k. (e, sign_ctx)) from_libdnssec (\<lambda>k rr. True) sign_rrset zkey ex_records kctx =
   key_records_sign (\<lambda>k. (DNSSEC_EOK, sign_ctx)) from_libdnssec (\<lambda>k rr. True) sign_rrset zkey ex_records kctx"
  by (simp add: key_records_sign_def Let_def knot_rrset_empty_def ex_records_def ex_rrset_def
        split: prod.splits)

text \<open>
  Claim C3. When the keys are loaded, the validation context is built and the validation
  of every family succeeds (DNSKEY always, CDNSKEY and CDS when they are not empty),
  \<open>key_records_verify\<close> returns \<open>KNOT_ESOON_EXPIRE\<close> if the expiry collected through the
  validations (\<open>u3\<close>) is before \<open>min_valid\<close> in the sense of \<open>knot_time_lt\<close>, and
  \<open>KNOT_EOK\<close> otherwise.
\<close>

theorem key_records_verify_soon_expire:
  assumes "kasp_keys (zone kctx) (rrs (dnskey r)) False (keytag_conflict kctx) = (KNOT_EOK, z, c)"
    and "validation_ctx (kctx\<lparr>now := timestamp, zone := z, keytag_conflict := c\<rparr>) = Some vc"
    and "validate (dnskey r) (rrsig r) vc False 0 = (KNOT_EOK, u1, vc1)"
    and "(if knot_rrset_empty (cdnskey r) then (KNOT_EOK, u1, vc1)
          else validate (cdnskey r) (rrsig r) vc1 False u1) = (KNOT_EOK, u2, vc2)"
    and "(if knot_rrset_empty (cds r) then (KNOT_EOK, u2, vc2)
          else validate (cds r) (rrsig r) vc2 False u2) = (KNOT_EOK, u3, vc3)"
  shows "fst (key_records_verify kasp_keys validation_ctx validate time_lt r kctx timestamp min_valid) =
     (if time_lt u3 min_valid then KNOT_ESOON_EXPIRE else KNOT_EOK)"
  using assms
  by (auto simp: key_records_verify_def Let_def split: prod.splits option.splits if_splits)

theorem key_records_verify_soon_expire_witness:
  "fst (key_records_verify ex_kasp_zone_keys_from_rr ex_zone_validation_ctx ex_knot_validate_rrsigs
          ex_knot_time_lt ex_records ex_kdnssec_ctx 2000 6000) = KNOT_ESOON_EXPIRE \<and>
   fst (key_records_verify ex_kasp_zone_keys_from_rr ex_zone_validation_ctx ex_knot_validate_rrsigs
          ex_knot_time_lt ex_records ex_kdnssec_ctx 2000 4000) = KNOT_EOK"
proof -
  have a: "ex_kasp_zone_keys_from_rr (zone ex_kdnssec_ctx) (rrs (dnskey ex_records)) False
             (keytag_conflict ex_kdnssec_ctx) = (KNOT_EOK, (), False)"
    by (simp add: ex_kasp_zone_keys_from_rr_def ex_kdnssec_ctx_def)
  have b: "ex_zone_validation_ctx (ex_kdnssec_ctx\<lparr>now := 2000, zone := (), keytag_conflict := False\<rparr>)
             = Some ()"
    by (simp add: ex_zone_validation_ctx_def)
  have c: "ex_knot_validate_rrsigs (dnskey ex_records) (rrsig ex_records) () False 0
             = (KNOT_EOK, 5000, ())"
    by (simp add: ex_knot_validate_rrsigs_def)
  have d: "(if knot_rrset_empty (cdnskey ex_records) then (KNOT_EOK, 5000, ())
            else ex_knot_validate_rrsigs (cdnskey ex_records) (rrsig ex_records) () False 5000)
             = (KNOT_EOK, 5000, ())"
    by (simp add: ex_knot_validate_rrsigs_def)
  have e: "(if knot_rrset_empty (cds ex_records) then (KNOT_EOK, 5000, ())
            else ex_knot_validate_rrsigs (cds ex_records) (rrsig ex_records) () False 5000)
             = (KNOT_EOK, 5000, ())"
    by (simp add: ex_knot_validate_rrsigs_def)
  note inst = key_records_verify_soon_expire [where kasp_keys = ex_kasp_zone_keys_from_rr
      and validation_ctx = ex_zone_validation_ctx and validate = ex_knot_validate_rrsigs
      and time_lt = ex_knot_time_lt and r = ex_records and kctx = ex_kdnssec_ctx
      and timestamp = 2000 and z = "()" and c = False and vc = "()" and ?u1.0 = 5000
      and ?vc1.0 = "()" and ?u2.0 = 5000 and ?vc2.0 = "()" and ?u3.0 = 5000 and ?vc3.0 = "()",
      OF a b c d e]
  show ?thesis
    using inst [of 6000] inst [of 4000] by (simp add: ex_knot_time_lt_def)
qed

text \<open>
  Claim C10. \<open>key_records_verify\<close> stores the given timestamp in the \<open>now\<close> member of the
  DNSSEC context before it validates, and the stored value stays. In turn: the context left
  behind holds the timestamp on every path (when loading the keys fails, when no validation
  context is built, when a validation fails, when the signatures expire too soon and on
  success); that context is the one given with \<open>now\<close> replaced by the timestamp and with what
  \<open>kasp_zone_keys_from_rr\<close> stored; the validation context is built only from a context
  whose \<open>now\<close> is the timestamp, since a builder that gives a null pointer for any other
  \<open>now\<close> changes nothing; and the value \<open>now\<close> had before the call has no influence.
\<close>

theorem key_records_verify_sets_now:
  "now (snd (key_records_verify kasp_keys validation_ctx validate time_lt r kctx timestamp min_valid))
     = timestamp \<and>
   snd (key_records_verify kasp_keys validation_ctx validate time_lt r kctx timestamp min_valid) =
     kctx\<lparr>now := timestamp,
          zone := fst (snd (kasp_keys (zone kctx) (rrs (dnskey r)) False (keytag_conflict kctx))),
          keytag_conflict :=
            snd (snd (kasp_keys (zone kctx) (rrs (dnskey r)) False (keytag_conflict kctx)))\<rparr> \<and>
   key_records_verify kasp_keys validation_ctx validate time_lt r kctx timestamp min_valid =
     key_records_verify kasp_keys (\<lambda>k. if now k = timestamp then validation_ctx k else None)
       validate time_lt r kctx timestamp min_valid \<and>
   key_records_verify kasp_keys validation_ctx validate time_lt r kctx timestamp min_valid =
     key_records_verify kasp_keys validation_ctx validate time_lt r (kctx\<lparr>now := timestamp\<rparr>)
       timestamp min_valid"
proof -
  obtain ret z c where k: "kasp_keys (zone kctx) (rrs (dnskey r)) False (keytag_conflict kctx) = (ret, z, c)"
    by (cases "kasp_keys (zone kctx) (rrs (dnskey r)) False (keytag_conflict kctx)")
  have ctx: "snd (key_records_verify kasp_keys validation_ctx validate time_lt r kctx timestamp min_valid) =
     kctx\<lparr>now := timestamp, zone := z, keytag_conflict := c\<rparr>"
    using k by (simp add: key_records_verify_def Let_def split: prod.splits option.splits)
  have only_ts: "key_records_verify kasp_keys validation_ctx validate time_lt r kctx timestamp min_valid =
     key_records_verify kasp_keys (\<lambda>k. if now k = timestamp then validation_ctx k else None)
       validate time_lt r kctx timestamp min_valid"
    using k by (simp add: key_records_verify_def Let_def)
  have old_now: "key_records_verify kasp_keys validation_ctx validate time_lt r kctx timestamp min_valid =
     key_records_verify kasp_keys validation_ctx validate time_lt r (kctx\<lparr>now := timestamp\<rparr>)
       timestamp min_valid"
    by (simp add: key_records_verify_def Let_def)
  from ctx have "now (snd (key_records_verify kasp_keys validation_ctx validate time_lt r kctx timestamp min_valid))
     = timestamp" by simp
  with ctx only_ts old_now k show ?thesis by simp
qed

theorem key_records_verify_sets_now_witness:
  "now ex_kdnssec_ctx = 1000 \<and>
   key_records_verify ex_kasp_zone_keys_from_rr (ex_zone_validation_ctx_at 2000)
       ex_knot_validate_rrsigs ex_knot_time_lt ex_records ex_kdnssec_ctx 2000 4000 =
     (KNOT_EOK, ex_kdnssec_ctx\<lparr>now := 2000\<rparr>) \<and>
   key_records_verify ex_kasp_zone_keys_from_rr (ex_zone_validation_ctx_at 1000)
       ex_knot_validate_rrsigs ex_knot_time_lt ex_records ex_kdnssec_ctx 2000 4000 =
     (KNOT_ENOMEM, ex_kdnssec_ctx\<lparr>now := 2000\<rparr>)"
proof -
  have a: "key_records_verify ex_kasp_zone_keys_from_rr (ex_zone_validation_ctx_at 2000)
       ex_knot_validate_rrsigs ex_knot_time_lt ex_records ex_kdnssec_ctx 2000 4000 =
     (KNOT_EOK, ex_kdnssec_ctx\<lparr>now := 2000\<rparr>)"
    by (simp add: key_records_verify_def ex_kasp_zone_keys_from_rr_def ex_zone_validation_ctx_at_def
          ex_knot_validate_rrsigs_def ex_knot_time_lt_def ex_kdnssec_ctx_def knot_rrset_empty_def
          ex_records_def ex_rrset_def Let_def)
  have b: "key_records_verify ex_kasp_zone_keys_from_rr (ex_zone_validation_ctx_at 1000)
       ex_knot_validate_rrsigs ex_knot_time_lt ex_records ex_kdnssec_ctx 2000 4000 =
     (KNOT_ENOMEM, ex_kdnssec_ctx\<lparr>now := 2000\<rparr>)"
    by (simp add: key_records_verify_def ex_kasp_zone_keys_from_rr_def ex_zone_validation_ctx_at_def
          ex_knot_validate_rrsigs_def ex_knot_time_lt_def ex_kdnssec_ctx_def knot_rrset_empty_def
          ex_records_def ex_rrset_def Let_def)
  have c: "now ex_kdnssec_ctx = 1000" by (simp add: ex_kdnssec_ctx_def)
  show ?thesis
    using a b c
      key_records_verify_sets_now [of ex_kasp_zone_keys_from_rr "ex_zone_validation_ctx_at 2000"
        ex_knot_validate_rrsigs ex_knot_time_lt ex_records ex_kdnssec_ctx 2000 4000]
    by simp
qed

end
